theory Spec2Isabelle
  imports Complex_Main
begin

section \<open>JavaScript values\<close>

text \<open>
  The service worker handles two JSON documents (the bootstrap document and the usage
  document) and one stored value. They are JavaScript values: \<open>undefined\<close>, \<open>null\<close>,
  booleans, numbers, strings, arrays and plain objects. Numbers are the finite doubles,
  read as the real numbers they denote; arithmetic on them is exact in this development
  (rounding and the infinities are not modelled). \<open>NaN\<close> is the value \<open>None\<close> of
  \<open>real option\<close>. A plain object is the list of its own properties, each name once.
\<close>

datatype jsval =
    JUndefined
  | JNull
  | JBool bool
  | JNum real
  | JStr string
  | JArr "jsval list"
  | JObj "(string \<times> jsval) list"

text \<open>\<open>if (v)\<close>, \<open>!v\<close>, \<open>v || d\<close>: the truth value of a JavaScript value.\<close>

fun truthy :: "jsval \<Rightarrow> bool" where
  "truthy JUndefined = False"
| "truthy JNull = False"
| "truthy (JBool b) = b"
| "truthy (JNum x) = (x \<noteq> 0)"
| "truthy (JStr s) = (s \<noteq> [])"
| "truthy (JArr xs) = True"
| "truthy (JObj kvs) = True"

text \<open>\<open>a || b\<close> on values.\<close>

definition js_or :: "jsval \<Rightarrow> jsval \<Rightarrow> jsval" where
  "js_or a b = (if truthy a then a else b)"

datatype error = Error string | TypeError string | SyntaxError string

fun message :: "error \<Rightarrow> string" where
  "message (Error m) = m"
| "message (TypeError m) = m"
| "message (SyntaxError m) = m"

text \<open>
  \<open>v?.name\<close> for the property names the program reads (\<open>account\<close>, \<open>memberships\<close>,
  \<open>organization\<close>, \<open>uuid\<close>, \<open>five_hour\<close>, \<open>utilization\<close>, \<open>resets_at\<close>): none of them
  is a built-in property of a string, an array, a number or a boolean, so only a plain
  object can have one. On \<open>null\<close> and \<open>undefined\<close> the optional chain yields \<open>undefined\<close>.
\<close>

fun opt_prop :: "jsval \<Rightarrow> string \<Rightarrow> jsval" where
  "opt_prop (JObj kvs) name = (case map_of kvs name of Some v \<Rightarrow> v | None \<Rightarrow> JUndefined)"
| "opt_prop v name = JUndefined"

text \<open>\<open>v?.[0]\<close>: the first element of an array, the first character of a string, the
  property \<open>"0"\<close> of an object.\<close>

fun opt_index0 :: "jsval \<Rightarrow> jsval" where
  "opt_index0 (JArr xs) = (case xs of [] \<Rightarrow> JUndefined | x # rest \<Rightarrow> x)"
| "opt_index0 (JStr s) = (case s of [] \<Rightarrow> JUndefined | c # rest \<Rightarrow> JStr [c])"
| "opt_index0 (JObj kvs) = (case map_of kvs ''0'' of Some v \<Rightarrow> v | None \<Rightarrow> JUndefined)"
| "opt_index0 v = JUndefined"

text \<open>\<open>v.name\<close> without the optional chain: reading a property of \<open>null\<close> or
  \<open>undefined\<close> throws a TypeError (the wording of the message is the engine's).\<close>

definition cannot_read :: "string \<Rightarrow> string \<Rightarrow> string" where
  "cannot_read what name =
     ''Cannot read properties of '' @ what @ '' (reading '' @ [CHR 0x27] @ name @ [CHR 0x27] @ '')''"

fun get_prop :: "jsval \<Rightarrow> string \<Rightarrow> error + jsval" where
  "get_prop JNull name = Inl (TypeError (cannot_read ''null'' name))"
| "get_prop JUndefined name = Inl (TypeError (cannot_read ''undefined'' name))"
| "get_prop v name = Inr (opt_prop v name)"

text \<open>
  Conversion to a number, as \<open><\<close> and \<open>*\<close> apply it to an operand. For strings, arrays
  and objects the conversion is ECMAScript's (ToPrimitive, then the grammar of numeric
  strings); it is not part of the repository and is the parameter \<open>P\<close>.
\<close>

fun ToNumber :: "(jsval \<Rightarrow> real option) \<Rightarrow> jsval \<Rightarrow> real option" where
  "ToNumber P JUndefined = None"
| "ToNumber P JNull = Some 0"
| "ToNumber P (JBool b) = Some (if b then 1 else 0)"
| "ToNumber P (JNum x) = Some x"
| "ToNumber P v = P v"

text \<open>\<open>a < c\<close> and \<open>a > c\<close> for a number \<open>a\<close> that may be NaN: every comparison with
  NaN is false.\<close>

definition js_lt :: "real option \<Rightarrow> real \<Rightarrow> bool" where
  "js_lt a c = (case a of None \<Rightarrow> False | Some x \<Rightarrow> x < c)"

definition js_gt :: "real option \<Rightarrow> real \<Rightarrow> bool" where
  "js_gt a c = (case a of None \<Rightarrow> False | Some x \<Rightarrow> x > c)"

text \<open>\<open>Math.max(c, a)\<close>: NaN if \<open>a\<close> is NaN.\<close>

definition Math_max :: "real \<Rightarrow> real option \<Rightarrow> real option" where
  "Math_max c a = map_option (max c) a"

text \<open>
  Text built by a template literal. The decimal form of a number, and the local time of
  day of a timestamp, are the platform's; they stay symbolic.
\<close>

datatype piece =
    Lit string
  | ToStr jsval
  | LocaleTime jsval

type_synonym jstext = "piece list"

text \<open>The decimal digits of an HTTP status, for \<open>`HTTP ${response.status}`\<close>.\<close>

fun digit :: "nat \<Rightarrow> char" where
  "digit n = ''0123456789'' ! n"

function dec :: "nat \<Rightarrow> string" where
  "dec n = (if n < 10 then [digit n] else dec (n div 10) @ [digit (n mod 10)])"
  by pat_completeness auto
termination
  by (relation "measure id") auto

declare dec.simps [simp del]

section \<open>The canvas\<close>

text \<open>
  An \<open>OffscreenCanvas\<close> with its 2D context: the drawing state the program sets, the
  current path, and the painting operations performed so far, in order, each with the
  state it was painted with. The pixels that \<open>getImageData\<close> returns are the platform's
  rasterisation of these operations on a transparent canvas of the given size; an
  \<open>ImageData\<close> is modelled by the operations that produced it. The program draws
  at the sizes 16, 32 and 48. A size is an integer; what the platform does with a size
  it refuses (a canvas without extent, an arc of negative radius) is not modelled, and
  no statement below is about such a size.
\<close>

datatype subpath = Arc real real real real real

datatype paint =
    FillRect string real real real real
  | ClearRect real real real real
  | Stroke "subpath list" string real string
  | Fill "subpath list" string
  | FillText jstext real real string jstext string string

record context2d =
  canvas_width :: int
  canvas_height :: int
  fillStyle :: string
  strokeStyle :: string
  lineWidth :: real
  lineCap :: string
  font :: jstext
  textAlign :: string
  textBaseline :: string
  currentPath :: "subpath list"
  painted :: "paint list"

record ImageData =
  img_width :: int
  img_height :: int
  img_painted :: "paint list"

definition OffscreenCanvas_2d :: "int \<Rightarrow> int \<Rightarrow> context2d" where
  "OffscreenCanvas_2d w h =
     \<lparr>canvas_width = w, canvas_height = h,
      fillStyle = ''#000000'', strokeStyle = ''#000000'', lineWidth = 1, lineCap = ''butt'',
      font = [Lit ''10px sans-serif''], textAlign = ''start'', textBaseline = ''alphabetic'',
      currentPath = [], painted = []\<rparr>"

definition fillRect :: "real \<Rightarrow> real \<Rightarrow> real \<Rightarrow> real \<Rightarrow> context2d \<Rightarrow> context2d" where
  "fillRect x y w h ctx = ctx\<lparr>painted := painted ctx @ [FillRect (fillStyle ctx) x y w h]\<rparr>"

definition clearRect :: "real \<Rightarrow> real \<Rightarrow> real \<Rightarrow> real \<Rightarrow> context2d \<Rightarrow> context2d" where
  "clearRect x y w h ctx = ctx\<lparr>painted := painted ctx @ [ClearRect x y w h]\<rparr>"

definition beginPath :: "context2d \<Rightarrow> context2d" where
  "beginPath ctx = ctx\<lparr>currentPath := []\<rparr>"

text \<open>\<open>ctx.arc\<close> with a NaN argument adds nothing to the path.\<close>

definition arc :: "real \<Rightarrow> real \<Rightarrow> real \<Rightarrow> real \<Rightarrow> real option \<Rightarrow> context2d \<Rightarrow> context2d" where
  "arc x y r a0 a1 ctx =
     (case a1 of
        None \<Rightarrow> ctx
      | Some e \<Rightarrow> ctx\<lparr>currentPath := currentPath ctx @ [Arc x y r a0 e]\<rparr>)"

definition stroke :: "context2d \<Rightarrow> context2d" where
  "stroke ctx =
     ctx\<lparr>painted := painted ctx @ [Stroke (currentPath ctx) (strokeStyle ctx) (lineWidth ctx) (lineCap ctx)]\<rparr>"

definition fill :: "context2d \<Rightarrow> context2d" where
  "fill ctx = ctx\<lparr>painted := painted ctx @ [Fill (currentPath ctx) (fillStyle ctx)]\<rparr>"

definition fillText :: "jstext \<Rightarrow> real \<Rightarrow> real \<Rightarrow> context2d \<Rightarrow> context2d" where
  "fillText t x y ctx =
     ctx\<lparr>painted := painted ctx @
        [FillText t x y (fillStyle ctx) (font ctx) (textAlign ctx) (textBaseline ctx)]\<rparr>"

definition getImageData :: "int \<Rightarrow> int \<Rightarrow> context2d \<Rightarrow> ImageData" where
  "getImageData sw sh ctx = \<lparr>img_width = sw, img_height = sh, img_painted = painted ctx\<rparr>"

section \<open>The icon renderer (background.js, thermometer bar)\<close>

text \<open>
  \<open>generateIcon(percentage, size)\<close>. The constants of its body are definitions of their
  own, under the names the source gives them, so that statements can speak of them.
  \<open>Math.floor(size * 0.4)\<close> is the floor of the exact product. The parameter
  \<open>size\<close> of the source is \<open>sz\<close> here.
\<close>

definition fillColor :: "(jsval \<Rightarrow> real option) \<Rightarrow> jsval \<Rightarrow> string" where
  "fillColor P percentage =
     (if js_lt (ToNumber P percentage) 50 then ''#10b981''
      else if js_lt (ToNumber P percentage) 80 then ''#f59e0b''
      else ''#ef4444'')"

definition claudeOrange :: string where
  "claudeOrange = ''#D97706''"

definition padding :: "int \<Rightarrow> int" where
  "padding sz = (if sz \<le> 16 then 1 else 2)"

definition borderWidth :: "int \<Rightarrow> int" where
  "borderWidth sz = (if sz \<le> 16 then 1 else 2)"

definition frameX :: "int \<Rightarrow> int" where
  "frameX sz = padding sz"

definition frameY :: "int \<Rightarrow> int" where
  "frameY sz = padding sz"

definition frameWidth :: "int \<Rightarrow> int" where
  "frameWidth sz = sz - (padding sz * 2)"

definition frameHeight :: "int \<Rightarrow> int" where
  "frameHeight sz = \<lfloor>real_of_int sz * 0.4\<rfloor>"

definition barX :: "int \<Rightarrow> int" where
  "barX sz = frameX sz + borderWidth sz"

definition barY :: "int \<Rightarrow> int" where
  "barY sz = frameY sz + borderWidth sz"

definition barMaxWidth :: "int \<Rightarrow> int" where
  "barMaxWidth sz = frameWidth sz - (borderWidth sz * 2)"

definition barHeight :: "int \<Rightarrow> int" where
  "barHeight sz = frameHeight sz - (borderWidth sz * 2)"

text \<open>\<open>(barMaxWidth * percentage) / 100\<close>, before \<open>Math.max\<close>.\<close>

definition barFill :: "(jsval \<Rightarrow> real option) \<Rightarrow> jsval \<Rightarrow> int \<Rightarrow> real option" where
  "barFill P percentage sz =
     map_option (\<lambda>p. (real_of_int (barMaxWidth sz) * p) / 100) (ToNumber P percentage)"

definition barWidth :: "(jsval \<Rightarrow> real option) \<Rightarrow> jsval \<Rightarrow> int \<Rightarrow> real option" where
  "barWidth P percentage sz = Math_max 1 (barFill P percentage sz)"

definition drawFrame :: "int \<Rightarrow> context2d \<Rightarrow> context2d" where
  "drawFrame sz ctx0 =
     (let ctx1 = ctx0\<lparr>fillStyle := claudeOrange\<rparr>;
          ctx2 = fillRect (frameX sz) (frameY sz) (frameWidth sz) (borderWidth sz) ctx1;
          ctx3 = fillRect (frameX sz) (frameY sz) (borderWidth sz) (frameHeight sz) ctx2;
          ctx4 = fillRect (frameX sz + frameWidth sz - borderWidth sz) (frameY sz)
                   (borderWidth sz) (frameHeight sz) ctx3
      in fillRect (frameX sz) (frameY sz + frameHeight sz - borderWidth sz)
           (frameWidth sz) (borderWidth sz) ctx4)"

definition drawBar :: "(jsval \<Rightarrow> real option) \<Rightarrow> jsval \<Rightarrow> int \<Rightarrow> context2d \<Rightarrow> context2d" where
  "drawBar P percentage sz ctx =
     (case barWidth P percentage sz of
        None \<Rightarrow> ctx
      | Some bw \<Rightarrow>
          if barHeight sz > 0 \<and> bw > 0
          then fillRect (barX sz) (barY sz) bw (barHeight sz)
                 (ctx\<lparr>fillStyle := fillColor P percentage\<rparr>)
          else ctx)"

definition generateIcon :: "(jsval \<Rightarrow> real option) \<Rightarrow> jsval \<Rightarrow> int \<Rightarrow> ImageData" where
  "generateIcon P percentage sz =
     getImageData sz sz
       (drawBar P percentage sz (drawFrame sz (OffscreenCanvas_2d sz sz)))"

section \<open>The icon renderer (earlier version of the service worker, circular progress)\<close>

definition progressColor :: "(jsval \<Rightarrow> real option) \<Rightarrow> jsval \<Rightarrow> string" where
  "progressColor P percentage =
     (if js_lt (ToNumber P percentage) 50 then ''#10b981''
      else if js_lt (ToNumber P percentage) 80 then ''#f59e0b''
      else ''#ef4444'')"

definition centerX :: "int \<Rightarrow> real" where
  "centerX sz = real_of_int sz / 2"

definition centerY :: "int \<Rightarrow> real" where
  "centerY sz = real_of_int sz / 2"

definition radius :: "int \<Rightarrow> real" where
  "radius sz = real_of_int sz / 2 - 2"

definition arcLineWidth :: "int \<Rightarrow> real" where
  "arcLineWidth sz = max 2 (real_of_int sz / 8)"

definition startAngle :: real where
  "startAngle = - pi / 2"

definition endAngle :: "(jsval \<Rightarrow> real option) \<Rightarrow> jsval \<Rightarrow> real option" where
  "endAngle P percentage =
     map_option (\<lambda>p. startAngle + (p / 100) * 2 * pi) (ToNumber P percentage)"

definition drawBackgroundCircle :: "int \<Rightarrow> context2d \<Rightarrow> context2d" where
  "drawBackgroundCircle sz ctx0 =
     (let ctx1 = clearRect 0 0 sz sz ctx0;
          ctx2 = beginPath ctx1;
          ctx3 = arc (centerX sz) (centerY sz) (radius sz) 0 (Some (2 * pi)) ctx2;
          ctx4 = ctx3\<lparr>strokeStyle := ''#e5e7eb''\<rparr>;
          ctx5 = ctx4\<lparr>lineWidth := arcLineWidth sz\<rparr>
      in stroke ctx5)"

definition drawProgressArc :: "(jsval \<Rightarrow> real option) \<Rightarrow> jsval \<Rightarrow> int \<Rightarrow> context2d \<Rightarrow> context2d" where
  "drawProgressArc P percentage sz ctx0 =
     (let ctx1 = beginPath ctx0;
          ctx2 = arc (centerX sz) (centerY sz) (radius sz) startAngle
                   (endAngle P percentage) ctx1;
          ctx3 = ctx2\<lparr>strokeStyle := progressColor P percentage\<rparr>;
          ctx4 = ctx3\<lparr>lineWidth := arcLineWidth sz\<rparr>;
          ctx5 = ctx4\<lparr>lineCap := ''round''\<rparr>
      in stroke ctx5)"

definition drawPercentageText :: "jsval \<Rightarrow> int \<Rightarrow> context2d \<Rightarrow> context2d" where
  "drawPercentageText percentage sz ctx0 =
     (if sz \<ge> 32
      then (let ctx1 = ctx0\<lparr>fillStyle := ''#1f2937''\<rparr>;
                ctx2 = ctx1\<lparr>font := [Lit ''bold '', ToStr (JNum (real_of_int sz / 3)), Lit ''px Arial'']\<rparr>;
                ctx3 = ctx2\<lparr>textAlign := ''center''\<rparr>;
                ctx4 = ctx3\<lparr>textBaseline := ''middle''\<rparr>
            in fillText [ToStr percentage, Lit ''%''] (centerX sz) (centerY sz) ctx4)
      else ctx0)"

definition generateIcon_circ :: "(jsval \<Rightarrow> real option) \<Rightarrow> jsval \<Rightarrow> int \<Rightarrow> ImageData" where
  "generateIcon_circ P percentage sz =
     getImageData sz sz
       (drawPercentageText percentage sz
          (drawProgressArc P percentage sz
             (drawBackgroundCircle sz (OffscreenCanvas_2d sz sz))))"

section \<open>The browser: toolbar action, local storage, network\<close>

text \<open>
  The state outside the service worker that the program reads and writes: the value
  stored under the key \<open>orgId\<close> in \<open>chrome.storage.local\<close> (\<open>None\<close> when the key is
  absent), the icon, badge and tooltip of the toolbar action, and the sequence of the
  calls made to the browser so far. Storage and the setters of \<open>chrome.action\<close> do not
  fail. One polling cycle runs to its end before the next one starts. With
  \<open>DEBUG = false\<close> the helpers \<open>log\<close> and \<open>logError\<close> do nothing; the console output of
  the earlier version is not part of the state.
\<close>

datatype icon =
    IconPath string
  | IconImageData "(nat \<times> ImageData) list"

datatype request =
    Bootstrap
  | Usage jsval

datatype call =
    StorageGet
  | StorageSet jsval
  | Fetch request
  | SetIcon icon
  | SetBadgeText jstext
  | SetBadgeTextColor string
  | SetBadgeBackgroundColor "nat list"
  | SetTitle jstext

record world =
  storage_orgId :: "jsval option"
  action_icon :: "icon option"
  action_badgeText :: jstext
  action_badgeTextColor :: "string option"
  action_badgeBackgroundColor :: "nat list option"
  action_title :: jstext
  calls :: "call list"

text \<open>
  What a \<open>fetch\<close> gives: the promise rejects (no response; the message is the
  platform's), or there is a response with a status and a body. \<open>response.ok\<close> holds for
  the statuses 200 to 299. \<open>response.json()\<close> yields the parsed body or rejects with a
  SyntaxError. The network of one cycle answers each request; \<open>Usage orgId\<close> is the
  request for \<open>`https://claude.ai/api/organizations/${orgId}/usage`\<close>.
\<close>

datatype body =
    JsonBody jsval
  | NotJson string

datatype fetch_result =
    Rejected string
  | Response nat body

type_synonym net = "request \<Rightarrow> fetch_result"

definition ok :: "nat \<Rightarrow> bool" where
  "ok status = (200 \<le> status \<and> status \<le> 299)"

definition storage_get :: "world \<Rightarrow> jsval \<times> world" where
  "storage_get w =
     ((case storage_orgId w of None \<Rightarrow> JUndefined | Some v \<Rightarrow> v),
      w\<lparr>calls := calls w @ [StorageGet]\<rparr>)"

definition storage_set :: "jsval \<Rightarrow> world \<Rightarrow> world" where
  "storage_set v w = w\<lparr>storage_orgId := Some v, calls := calls w @ [StorageSet v]\<rparr>"

definition fetch :: "net \<Rightarrow> request \<Rightarrow> world \<Rightarrow> fetch_result \<times> world" where
  "fetch net req w = (net req, w\<lparr>calls := calls w @ [Fetch req]\<rparr>)"

definition setIcon :: "icon \<Rightarrow> world \<Rightarrow> world" where
  "setIcon i w = w\<lparr>action_icon := Some i, calls := calls w @ [SetIcon i]\<rparr>"

definition setBadgeText :: "jstext \<Rightarrow> world \<Rightarrow> world" where
  "setBadgeText t w = w\<lparr>action_badgeText := t, calls := calls w @ [SetBadgeText t]\<rparr>"

definition setBadgeTextColor :: "string \<Rightarrow> world \<Rightarrow> world" where
  "setBadgeTextColor c w =
     w\<lparr>action_badgeTextColor := Some c, calls := calls w @ [SetBadgeTextColor c]\<rparr>"

definition setBadgeBackgroundColor :: "nat list \<Rightarrow> world \<Rightarrow> world" where
  "setBadgeBackgroundColor c w =
     w\<lparr>action_badgeBackgroundColor := Some c, calls := calls w @ [SetBadgeBackgroundColor c]\<rparr>"

definition setTitle :: "jstext \<Rightarrow> world \<Rightarrow> world" where
  "setTitle t w = w\<lparr>action_title := t, calls := calls w @ [SetTitle t]\<rparr>"

section \<open>The service worker (background.js)\<close>

definition newline :: string where
  "newline = [CHR 0x0A]"

text \<open>\<open>updateBadgeError(message)\<close>: the static error icon, an empty badge, the tooltip.\<close>

definition updateBadgeError :: "string \<Rightarrow> world \<Rightarrow> world" where
  "updateBadgeError msg w0 =
     (let w1 = setIcon (IconPath ''error-icon.png'') w0;
          w2 = setBadgeText [Lit []] w1
      in setTitle [Lit (''Make sure you are logged in to Claude.ai!'' @ newline @ ''Error: '' @ msg)] w2)"

text \<open>
  \<open>updateBadge(data)\<close>. Reading \<open>data.five_hour\<close> throws when the document is \<open>null\<close>;
  the exception leaves the function. A falsy \<open>five_hour\<close> is the error state
  \<open>No data\<close>. Otherwise the percentage is \<open>fiveHour.utilization || 0\<close>.
\<close>

definition resetTimeStr :: "jsval \<Rightarrow> jstext" where
  "resetTimeStr resetsAt = (if truthy resetsAt then [LocaleTime resetsAt] else [Lit ''Unknown''])"

definition updateBadge :: "(jsval \<Rightarrow> real option) \<Rightarrow> jsval \<Rightarrow> world \<Rightarrow> (error + unit) \<times> world" where
  "updateBadge P data w0 =
     (case get_prop data ''five_hour'' of
        Inl e \<Rightarrow> (Inl e, w0)
      | Inr fiveHour \<Rightarrow>
          if \<not> truthy fiveHour then (Inr (), updateBadgeError ''No data'' w0)
          else
            (let percentage = js_or (opt_prop fiveHour ''utilization'') (JNum 0);
                 resetsAt = opt_prop fiveHour ''resets_at'';
                 icon16 = generateIcon P percentage 16;
                 icon32 = generateIcon P percentage 32;
                 icon48 = generateIcon P percentage 48;
                 w1 = setIcon (IconImageData [(16, icon16), (32, icon32), (48, icon48)]) w0;
                 w2 = setBadgeText [ToStr percentage, Lit ''%''] w1;
                 w3 = setBadgeTextColor ''#D97706'' w2;
                 w4 = setBadgeBackgroundColor [0, 0, 0, 0] w3;
                 title = [Lit (''Claude Usage Monitor'' @ newline), ToStr percentage,
                          Lit (''% used'' @ newline @ ''Resets at '')] @ resetTimeStr resetsAt
             in (Inr (), setTitle title w4)))"

text \<open>
  \<open>getOrganizationId()\<close>: the body of its \<open>try\<close>, then the function with its \<open>catch\<close>,
  which turns every exception into the result \<open>null\<close>. The result is the outcome of the
  promise the \<open>async\<close> function returns: \<open>Inr\<close> a value, or \<open>Inl\<close> an exception that leaves
  the function.
\<close>

definition extractOrgId :: "jsval \<Rightarrow> jsval" where
  "extractOrgId data =
     opt_prop (opt_prop (opt_index0 (opt_prop (opt_prop data ''account'') ''memberships''))
       ''organization'') ''uuid''"

definition getOrganizationId_try :: "net \<Rightarrow> world \<Rightarrow> (error + jsval) \<times> world" where
  "getOrganizationId_try net w0 =
     (let (cached, w1) = storage_get w0 in
      if truthy cached then (Inr cached, w1)
      else
        (let (response, w2) = fetch net Bootstrap w1 in
         case response of
           Rejected m \<Rightarrow> (Inl (TypeError m), w2)
         | Response status body \<Rightarrow>
             if \<not> ok status then (Inl (Error (''Bootstrap failed: HTTP '' @ dec status)), w2)
             else
               (case body of
                  NotJson m \<Rightarrow> (Inl (SyntaxError m), w2)
                | JsonBody data \<Rightarrow>
                    (let orgId = extractOrgId data in
                     if \<not> truthy orgId
                     then (Inl (Error ''Org ID not found in bootstrap response''), w2)
                     else (Inr orgId, storage_set orgId w2)))))"

definition getOrganizationId :: "net \<Rightarrow> world \<Rightarrow> (error + jsval) \<times> world" where
  "getOrganizationId net w0 =
     (case getOrganizationId_try net w0 of
        (Inl e, w1) \<Rightarrow> (Inr JNull, w1)
      | (Inr v, w1) \<Rightarrow> (Inr v, w1))"

text \<open>\<open>fetchAndUpdateUsage()\<close>: the body of its \<open>try\<close>, then the function with its
  \<open>catch\<close>, which renders the error state with the message of the exception.\<close>

definition fetchAndUpdateUsage_try ::
    "(jsval \<Rightarrow> real option) \<Rightarrow> net \<Rightarrow> world \<Rightarrow> (error + unit) \<times> world" where
  "fetchAndUpdateUsage_try P net w0 =
     (case getOrganizationId net w0 of
        (Inl e, w1) \<Rightarrow> (Inl e, w1)
      | (Inr orgId, w1) \<Rightarrow>
          if \<not> truthy orgId then (Inr (), updateBadgeError ''No org ID'' w1)
          else
            (let (response, w2) = fetch net (Usage orgId) w1 in
             case response of
               Rejected m \<Rightarrow> (Inl (TypeError m), w2)
             | Response status body \<Rightarrow>
                 if \<not> ok status then (Inl (Error (''HTTP '' @ dec status)), w2)
                 else
                   (case body of
                      NotJson m \<Rightarrow> (Inl (SyntaxError m), w2)
                    | JsonBody data \<Rightarrow> updateBadge P data w2)))"

definition fetchAndUpdateUsage ::
    "(jsval \<Rightarrow> real option) \<Rightarrow> net \<Rightarrow> world \<Rightarrow> (error + unit) \<times> world" where
  "fetchAndUpdateUsage P net w0 =
     (case fetchAndUpdateUsage_try P net w0 of
        (Inl e, w1) \<Rightarrow> (Inr (), updateBadgeError (message e) w1)
      | (Inr u, w1) \<Rightarrow> (Inr u, w1))"

text \<open>
  The timer driver: the alarm listener starts one cycle, and nothing awaits its result.
  A run of the extension is a sequence of cycles, each with the network as it answers
  during that cycle.
\<close>

definition onAlarm :: "(jsval \<Rightarrow> real option) \<Rightarrow> net \<Rightarrow> world \<Rightarrow> world" where
  "onAlarm P net w = snd (fetchAndUpdateUsage P net w)"

fun polling :: "(jsval \<Rightarrow> real option) \<Rightarrow> net list \<Rightarrow> world \<Rightarrow> world" where
  "polling P [] w = w"
| "polling P (net # nets) w = polling P nets (onAlarm P net w)"

section \<open>The service worker (earlier version, circular progress)\<close>

text \<open>
  The earlier version of the file differs in the renderers: \<open>generateIcon\<close> draws the
  circular indicator, and \<open>updateBadgeError\<close> draws its icon (a gray disc with a white
  exclamation mark) instead of naming a static file. Its \<open>getOrganizationId\<close> is the
  one above (it differs in the request headers and in logging to the console only), and
  its \<open>updateBadge\<close> and \<open>fetchAndUpdateUsage\<close> are the ones above with these renderers.
\<close>

definition errorIcon :: ImageData where
  "errorIcon =
     (let sz = 48;
          ctx0 = OffscreenCanvas_2d sz sz;
          ctx1 = beginPath ctx0;
          ctx2 = arc (centerX sz) (centerY sz) (radius sz) 0 (Some (2 * pi)) ctx1;
          ctx3 = ctx2\<lparr>fillStyle := ''#6b7280''\<rparr>;
          ctx4 = fill ctx3;
          ctx5 = ctx4\<lparr>fillStyle := ''#ffffff''\<rparr>;
          ctx6 = ctx5\<lparr>font := [Lit ''bold '', ToStr (JNum (real_of_int sz / 2)), Lit ''px Arial'']\<rparr>;
          ctx7 = ctx6\<lparr>textAlign := ''center''\<rparr>;
          ctx8 = ctx7\<lparr>textBaseline := ''middle''\<rparr>;
          ctx9 = fillText [Lit ''!''] (centerX sz) (centerY sz) ctx8
      in getImageData sz sz ctx9)"

definition updateBadgeError_circ :: "string \<Rightarrow> world \<Rightarrow> world" where
  "updateBadgeError_circ msg w0 =
     (let w1 = setIcon (IconImageData [(16, errorIcon), (32, errorIcon), (48, errorIcon)]) w0;
          w2 = setBadgeText [Lit []] w1
      in setTitle [Lit (''Claude Usage Monitor'' @ newline @ ''Error: '' @ msg)] w2)"

definition updateBadge_circ :: "(jsval \<Rightarrow> real option) \<Rightarrow> jsval \<Rightarrow> world \<Rightarrow> (error + unit) \<times> world" where
  "updateBadge_circ P data w0 =
     (case get_prop data ''five_hour'' of
        Inl e \<Rightarrow> (Inl e, w0)
      | Inr fiveHour \<Rightarrow>
          if \<not> truthy fiveHour then (Inr (), updateBadgeError_circ ''No data'' w0)
          else
            (let percentage = js_or (opt_prop fiveHour ''utilization'') (JNum 0);
                 resetsAt = opt_prop fiveHour ''resets_at'';
                 icon16 = generateIcon_circ P percentage 16;
                 icon32 = generateIcon_circ P percentage 32;
                 icon48 = generateIcon_circ P percentage 48;
                 w1 = setIcon (IconImageData [(16, icon16), (32, icon32), (48, icon48)]) w0;
                 w2 = setBadgeText [ToStr percentage, Lit ''%''] w1;
                 w3 = setBadgeTextColor ''#D97706'' w2;
                 w4 = setBadgeBackgroundColor [0, 0, 0, 0] w3;
                 title = [Lit (''Claude Usage Monitor'' @ newline), ToStr percentage,
                          Lit (''% used'' @ newline @ ''Resets at '')] @ resetTimeStr resetsAt
             in (Inr (), setTitle title w4)))"

definition fetchAndUpdateUsage_circ_try ::
    "(jsval \<Rightarrow> real option) \<Rightarrow> net \<Rightarrow> world \<Rightarrow> (error + unit) \<times> world" where
  "fetchAndUpdateUsage_circ_try P net w0 =
     (case getOrganizationId net w0 of
        (Inl e, w1) \<Rightarrow> (Inl e, w1)
      | (Inr orgId, w1) \<Rightarrow>
          if \<not> truthy orgId then (Inr (), updateBadgeError_circ ''No org ID'' w1)
          else
            (let (response, w2) = fetch net (Usage orgId) w1 in
             case response of
               Rejected m \<Rightarrow> (Inl (TypeError m), w2)
             | Response status body \<Rightarrow>
                 if \<not> ok status then (Inl (Error (''HTTP '' @ dec status)), w2)
                 else
                   (case body of
                      NotJson m \<Rightarrow> (Inl (SyntaxError m), w2)
                    | JsonBody data \<Rightarrow> updateBadge_circ P data w2)))"

definition fetchAndUpdateUsage_circ ::
    "(jsval \<Rightarrow> real option) \<Rightarrow> net \<Rightarrow> world \<Rightarrow> (error + unit) \<times> world" where
  "fetchAndUpdateUsage_circ P net w0 =
     (case fetchAndUpdateUsage_circ_try P net w0 of
        (Inl e, w1) \<Rightarrow> (Inr (), updateBadgeError_circ (message e) w1)
      | (Inr u, w1) \<Rightarrow> (Inr u, w1))"

section \<open>Observations on a run\<close>

text \<open>
  The state of the browser when the extension has just been installed: nothing stored,
  nothing set on the toolbar action, no call made.
\<close>

definition installed :: world where
  "installed =
     \<lparr>storage_orgId = None, action_icon = None, action_badgeText = [],
      action_badgeTextColor = None, action_badgeBackgroundColor = None, action_title = [],
      calls = []\<rparr>"

text \<open>The values written to the cache, in order, among the calls of a run.\<close>

fun writes :: "call list \<Rightarrow> jsval list" where
  "writes [] = []"
| "writes (StorageSet v # cs) = v # writes cs"
| "writes (c # cs) = writes cs"

text \<open>How often the bootstrap document was requested.\<close>

fun bootstrap_fetches :: "call list \<Rightarrow> nat" where
  "bootstrap_fetches [] = 0"
| "bootstrap_fetches (Fetch Bootstrap # cs) = Suc (bootstrap_fetches cs)"
| "bootstrap_fetches (c # cs) = bootstrap_fetches cs"

text \<open>The calls to \<open>chrome.action\<close> (icon, badge, tooltip), in order.\<close>

fun action_calls :: "call list \<Rightarrow> call list" where
  "action_calls [] = []"
| "action_calls (StorageGet # cs) = action_calls cs"
| "action_calls (StorageSet v # cs) = action_calls cs"
| "action_calls (Fetch r # cs) = action_calls cs"
| "action_calls (c # cs) = c # action_calls cs"

section \<open>The icon renderer: colours and the fill bar\<close>

lemma frameHeight_div: "frameHeight sz = (2 * sz) div 5"
proof -
  have "real_of_int sz * 0.4 = real_of_int (2 * sz) / real_of_int 5"
    by simp
  then show ?thesis
    unfolding frameHeight_def by (simp only: floor_divide_of_int_eq)
qed

lemma icon_sizes:
  "barHeight 16 = 4" "barHeight 32 = 8" "barHeight 48 = 15"
  "barMaxWidth 16 = 12" "barMaxWidth 32 = 24" "barMaxWidth 48 = 40"
  "barX 16 = 2" "barY 16 = 2"
  by (simp_all add: barHeight_def barMaxWidth_def barX_def barY_def frameX_def frameY_def
      frameHeight_div frameWidth_def borderWidth_def padding_def)

lemma barHeight_pos_iff: "0 < barHeight sz \<longleftrightarrow> 8 \<le> sz"
  by (auto simp add: barHeight_def frameHeight_div borderWidth_def)

lemma barMaxWidth_pos_iff: "0 < barMaxWidth sz \<longleftrightarrow> 4 < sz"
  by (auto simp add: barMaxWidth_def frameWidth_def borderWidth_def padding_def)

text \<open>The last thing \<open>generateIcon\<close> paints, when the bar has a height, is the bar.\<close>

lemma generateIcon_bar:
  assumes "0 < barHeight sz"
  shows "last (img_painted (generateIcon P (JNum p) sz)) =
           FillRect (fillColor P (JNum p)) (barX sz) (barY sz)
             (max 1 ((real_of_int (barMaxWidth sz) * p) / 100)) (barHeight sz)"
  using assms
  by (simp add: generateIcon_def getImageData_def drawBar_def barWidth_def barFill_def
      Math_max_def fillRect_def less_max_iff_disj)

text \<open>The circular renderer strokes the arc from the top to the end angle.\<close>

lemma generateIcon_circ_arc:
  "Stroke [Arc (centerX sz) (centerY sz) (radius sz) startAngle (startAngle + (p / 100) * 2 * pi)]
      (progressColor P (JNum p)) (arcLineWidth sz) ''round''
     \<in> set (img_painted (generateIcon_circ P (JNum p) sz))"
  by (simp add: generateIcon_circ_def getImageData_def drawPercentageText_def
      drawProgressArc_def drawBackgroundCircle_def endAngle_def arc_def beginPath_def
      stroke_def clearRect_def fillText_def OffscreenCanvas_2d_def Let_def)

text \<open>
  Claim C1. For every percentage \<open>p\<close> given to the icon renderer, the colour selected is
  green (\<open>#10b981\<close>) when \<open>p < 50\<close>, yellow (\<open>#f59e0b\<close>) when \<open>50 \<le> p < 80\<close>, and red
  (\<open>#ef4444\<close>) when \<open>p \<ge> 80\<close>; this holds for \<open>fillColor\<close> of the thermometer renderer
  and for \<open>progressColor\<close> of the circular one. The selected colour is the one the bar
  (when it has a height) and the progress arc are painted with.
\<close>

theorem generateIcon_color_thresholds:
  "(p < 50 \<longrightarrow> fillColor P (JNum p) = ''#10b981'' \<and> progressColor P (JNum p) = ''#10b981'')
   \<and> (50 \<le> p \<and> p < 80 \<longrightarrow>
        fillColor P (JNum p) = ''#f59e0b'' \<and> progressColor P (JNum p) = ''#f59e0b'')
   \<and> (80 \<le> p \<longrightarrow> fillColor P (JNum p) = ''#ef4444'' \<and> progressColor P (JNum p) = ''#ef4444'')
   \<and> (0 < barHeight sz \<longrightarrow>
        (\<exists>bw. last (img_painted (generateIcon P (JNum p) sz)) =
           FillRect (fillColor P (JNum p)) (barX sz) (barY sz) bw (barHeight sz)))
   \<and> (\<exists>e. Stroke [Arc (centerX sz) (centerY sz) (radius sz) startAngle e]
          (progressColor P (JNum p)) (arcLineWidth sz) ''round''
        \<in> set (img_painted (generateIcon_circ P (JNum p) sz)))"
proof -
  have colours:
    "(p < 50 \<longrightarrow> fillColor P (JNum p) = ''#10b981'' \<and> progressColor P (JNum p) = ''#10b981'')
     \<and> (50 \<le> p \<and> p < 80 \<longrightarrow>
          fillColor P (JNum p) = ''#f59e0b'' \<and> progressColor P (JNum p) = ''#f59e0b'')
     \<and> (80 \<le> p \<longrightarrow> fillColor P (JNum p) = ''#ef4444'' \<and> progressColor P (JNum p) = ''#ef4444'')"
    by (simp add: fillColor_def progressColor_def js_lt_def)
  have bar: "0 < barHeight sz \<longrightarrow>
        (\<exists>bw. last (img_painted (generateIcon P (JNum p) sz)) =
           FillRect (fillColor P (JNum p)) (barX sz) (barY sz) bw (barHeight sz))"
    using generateIcon_bar by blast
  have arc: "\<exists>e. Stroke [Arc (centerX sz) (centerY sz) (radius sz) startAngle e]
          (progressColor P (JNum p)) (arcLineWidth sz) ''round''
        \<in> set (img_painted (generateIcon_circ P (JNum p) sz))"
    using generateIcon_circ_arc by blast
  from colours bar arc show ?thesis
    by blast
qed

theorem generateIcon_color_thresholds_witness:
  "fillColor (\<lambda>v. None) (JNum 30) = ''#10b981''
   \<and> progressColor (\<lambda>v. None) (JNum 65) = ''#f59e0b''
   \<and> fillColor (\<lambda>v. None) (JNum 80) = ''#ef4444''
   \<and> (\<exists>bw. last (img_painted (generateIcon (\<lambda>v. None) (JNum 30) 16)) =
          FillRect ''#10b981'' 2 2 bw 4)"
  using generateIcon_color_thresholds [of 30 "\<lambda>v. None" 16]
    generateIcon_color_thresholds [of 65 "\<lambda>v. None" 16]
    generateIcon_color_thresholds [of 80 "\<lambda>v. None" 16]
  by (auto simp add: icon_sizes)

text \<open>
  Claim C9. In the thermometer renderer, for every percentage \<open>p \<ge> 0\<close> and every size
  whose bar has a height, the fill bar that is drawn has the width
  \<open>Math.max(1, barMaxWidth * p / 100)\<close>, which is at least 1 pixel; in particular a
  reading of 0 draws a green bar one pixel wide.
\<close>

theorem generateIcon_bar_at_least_one_pixel:
  assumes "0 \<le> p" and "0 < barHeight sz"
  shows "(\<exists>bw. barWidth P (JNum p) sz = Some bw
            \<and> bw = max 1 ((real_of_int (barMaxWidth sz) * p) / 100)
            \<and> 1 \<le> bw
            \<and> last (img_painted (generateIcon P (JNum p) sz)) =
                 FillRect (fillColor P (JNum p)) (barX sz) (barY sz) bw (barHeight sz))
         \<and> last (img_painted (generateIcon P (JNum 0) sz)) =
             FillRect ''#10b981'' (barX sz) (barY sz) 1 (barHeight sz)"
proof -
  have width: "barWidth P (JNum p) sz = Some (max 1 ((real_of_int (barMaxWidth sz) * p) / 100))"
    by (simp add: barWidth_def barFill_def Math_max_def)
  have green: "fillColor P (JNum 0) = ''#10b981''"
    by (simp add: fillColor_def js_lt_def)
  have zero: "last (img_painted (generateIcon P (JNum 0) sz)) =
      FillRect ''#10b981'' (barX sz) (barY sz) 1 (barHeight sz)"
    using generateIcon_bar [OF assms(2), of P 0] green by simp
  from width generateIcon_bar [OF assms(2), of P p] zero show ?thesis
    by simp
qed

theorem generateIcon_bar_at_least_one_pixel_witness:
  "(0::real) \<le> 3 \<and> 0 < barHeight 16
   \<and> barWidth (\<lambda>v. None) (JNum 3) 16 = Some 1
   \<and> last (img_painted (generateIcon (\<lambda>v. None) (JNum 0) 16)) = FillRect ''#10b981'' 2 2 1 4"
  using generateIcon_bar_at_least_one_pixel [of 3 16 "\<lambda>v. None"]
  by (auto simp add: icon_sizes)

text \<open>
  Claim C10. The renderers do not clamp the percentage. For every \<open>p > 100\<close> (and a size
  whose frame has an inner width, as 16, 32 and 48 have), the thermometer renderer
  computes the bar width \<open>barMaxWidth * p / 100\<close>, strictly greater than the inner width
  \<open>barMaxWidth\<close>, and paints the bar that wide; the circular renderer computes an end
  angle more than one full turn past the start angle, and strokes the arc up to it.
\<close>

theorem generateIcon_no_clamping:
  assumes "100 < p" and "4 < sz"
  shows "(\<exists>bw. barFill P (JNum p) sz = Some bw \<and> barWidth P (JNum p) sz = Some bw
            \<and> real_of_int (barMaxWidth sz) < bw
            \<and> (0 < barHeight sz \<longrightarrow>
                 last (img_painted (generateIcon P (JNum p) sz)) =
                   FillRect (fillColor P (JNum p)) (barX sz) (barY sz) bw (barHeight sz)))
         \<and> (\<exists>e. endAngle P (JNum p) = Some e \<and> 2 * pi < e - startAngle
            \<and> Stroke [Arc (centerX sz) (centerY sz) (radius sz) startAngle e]
                 (progressColor P (JNum p)) (arcLineWidth sz) ''round''
               \<in> set (img_painted (generateIcon_circ P (JNum p) sz)))"
proof -
  define x where "x = (real_of_int (barMaxWidth sz) * p) / 100"
  have one: "1 \<le> real_of_int (barMaxWidth sz)"
    using assms(2) barMaxWidth_pos_iff [of sz] by linarith
  then have "real_of_int (barMaxWidth sz) * 100 < real_of_int (barMaxWidth sz) * p"
    using assms(1) by simp
  then have gt: "real_of_int (barMaxWidth sz) < x"
    by (simp add: x_def)
  have fill: "barFill P (JNum p) sz = Some x"
    by (simp only: barFill_def x_def ToNumber.simps option.map)
  have mx: "max 1 x = x"
    using gt one by (intro max_absorb2) linarith
  then have width: "barWidth P (JNum p) sz = Some x"
    by (simp only: barWidth_def Math_max_def fill option.map)
  have painted: "0 < barHeight sz \<longrightarrow>
      last (img_painted (generateIcon P (JNum p) sz)) =
        FillRect (fillColor P (JNum p)) (barX sz) (barY sz) x (barHeight sz)"
    using generateIcon_bar [of sz P p] mx by (simp only: x_def) simp
  define e where "e = startAngle + (p / 100) * 2 * pi"
  have "2 * pi * 100 < 2 * pi * p"
    using assms(1) pi_gt_zero by simp
  then have "2 * pi < (p / 100) * 2 * pi"
    by simp
  then have turn: "2 * pi < e - startAngle"
    by (simp add: e_def)
  have angle: "endAngle P (JNum p) = Some e"
    by (simp add: endAngle_def e_def)
  have stroked: "Stroke [Arc (centerX sz) (centerY sz) (radius sz) startAngle e]
      (progressColor P (JNum p)) (arcLineWidth sz) ''round''
    \<in> set (img_painted (generateIcon_circ P (JNum p) sz))"
    unfolding e_def by (rule generateIcon_circ_arc)
  from fill width gt painted angle turn stroked show ?thesis
    by blast
qed

theorem generateIcon_no_clamping_witness:
  "(100::real) < 150 \<and> (4::int) < 16
   \<and> barWidth (\<lambda>v. None) (JNum 150) 16 = Some 18 \<and> barMaxWidth 16 = 12
   \<and> endAngle (\<lambda>v. None) (JNum 150) = Some (startAngle + 3 * pi)"
proof -
  have "barWidth (\<lambda>v. None) (JNum 150) 16 = Some 18"
    by (simp add: barWidth_def barFill_def Math_max_def icon_sizes)
  moreover have "endAngle (\<lambda>v. None) (JNum 150) = Some (startAngle + 3 * pi)"
    by (simp add: endAngle_def)
  ultimately show ?thesis
    using generateIcon_no_clamping [of 150 16 "\<lambda>v. None"] by (simp add: icon_sizes)
qed

section \<open>The error renderer\<close>

lemma updateBadgeError_calls:
  "calls (updateBadgeError m w) =
     calls w @ [SetIcon (IconPath ''error-icon.png''), SetBadgeText [Lit []],
                SetTitle [Lit (''Make sure you are logged in to Claude.ai!'' @ newline @ ''Error: '' @ m)]]"
  by (simp add: updateBadgeError_def setIcon_def setBadgeText_def setTitle_def)

lemma updateBadgeError_storage: "storage_orgId (updateBadgeError m w) = storage_orgId w"
  by (simp add: updateBadgeError_def setIcon_def setBadgeText_def setTitle_def)

lemma updateBadgeError_circ_calls:
  "calls (updateBadgeError_circ m w) =
     calls w @ [SetIcon (IconImageData [(16, errorIcon), (32, errorIcon), (48, errorIcon)]),
                SetBadgeText [Lit []],
                SetTitle [Lit (''Claude Usage Monitor'' @ newline @ ''Error: '' @ m)]]"
  by (simp add: updateBadgeError_circ_def setIcon_def setBadgeText_def setTitle_def)

lemma updateBadgeError_circ_storage: "storage_orgId (updateBadgeError_circ m w) = storage_orgId w"
  by (simp add: updateBadgeError_circ_def setIcon_def setBadgeText_def setTitle_def)

lemma errorIcon_painted:
  "img_painted errorIcon =
     [Fill [Arc 24 24 22 0 (2 * pi)] ''#6b7280'',
      FillText [Lit ''!''] 24 24 ''#ffffff'' [Lit ''bold '', ToStr (JNum 24), Lit ''px Arial'']
        ''center'' ''middle'']"
  by (simp add: errorIcon_def getImageData_def fillText_def fill_def arc_def beginPath_def
      OffscreenCanvas_2d_def centerX_def centerY_def radius_def Let_def)

text \<open>
  Claim C6, as the code has it. For every error message \<open>m\<close>, \<open>updateBadgeError\<close> sets a
  fixed icon (the static file \<open>error-icon.png\<close>; in the earlier version a drawn gray disc
  with a white exclamation mark, the same image at the three sizes), sets the badge text
  to the empty string, and sets the tooltip to a fixed prefix followed by \<open>m\<close>. It makes
  these three calls and no other, and leaves the cache alone.
\<close>

theorem updateBadgeError_renders:
  "action_icon (updateBadgeError m w) = Some (IconPath ''error-icon.png'')
   \<and> action_badgeText (updateBadgeError m w) = [Lit []]
   \<and> action_title (updateBadgeError m w) =
        [Lit (''Make sure you are logged in to Claude.ai!'' @ newline @ ''Error: '' @ m)]
   \<and> calls (updateBadgeError m w) =
        calls w @ [SetIcon (IconPath ''error-icon.png''), SetBadgeText [Lit []],
                   SetTitle [Lit (''Make sure you are logged in to Claude.ai!'' @ newline @ ''Error: '' @ m)]]
   \<and> storage_orgId (updateBadgeError m w) = storage_orgId w
   \<and> action_icon (updateBadgeError_circ m w) =
        Some (IconImageData [(16, errorIcon), (32, errorIcon), (48, errorIcon)])
   \<and> img_painted errorIcon =
        [Fill [Arc 24 24 22 0 (2 * pi)] ''#6b7280'',
         FillText [Lit ''!''] 24 24 ''#ffffff'' [Lit ''bold '', ToStr (JNum 24), Lit ''px Arial'']
           ''center'' ''middle'']
   \<and> action_badgeText (updateBadgeError_circ m w) = [Lit []]
   \<and> action_title (updateBadgeError_circ m w) =
        [Lit (''Claude Usage Monitor'' @ newline @ ''Error: '' @ m)]
   \<and> calls (updateBadgeError_circ m w) =
        calls w @ [SetIcon (IconImageData [(16, errorIcon), (32, errorIcon), (48, errorIcon)]),
                   SetBadgeText [Lit []],
                   SetTitle [Lit (''Claude Usage Monitor'' @ newline @ ''Error: '' @ m)]]
   \<and> storage_orgId (updateBadgeError_circ m w) = storage_orgId w"
proof -
  have "action_icon (updateBadgeError m w) = Some (IconPath ''error-icon.png'')"
    and "action_badgeText (updateBadgeError m w) = [Lit []]"
    and "action_title (updateBadgeError m w) =
        [Lit (''Make sure you are logged in to Claude.ai!'' @ newline @ ''Error: '' @ m)]"
    by (simp_all add: updateBadgeError_def setIcon_def setBadgeText_def setTitle_def)
  moreover have "action_icon (updateBadgeError_circ m w) =
        Some (IconImageData [(16, errorIcon), (32, errorIcon), (48, errorIcon)])"
    and "action_badgeText (updateBadgeError_circ m w) = [Lit []]"
    and "action_title (updateBadgeError_circ m w) =
        [Lit (''Claude Usage Monitor'' @ newline @ ''Error: '' @ m)]"
    by (simp_all add: updateBadgeError_circ_def setIcon_def setBadgeText_def setTitle_def)
  ultimately show ?thesis
    using updateBadgeError_calls [of m w] updateBadgeError_storage [of m w]
      updateBadgeError_circ_calls [of m w] updateBadgeError_circ_storage [of m w]
      errorIcon_painted
    by (simp only: simp_thms)
qed

text \<open>
  Claim C6 as it is written says that the tooltip is set to the message \<open>m\<close>. It is not:
  for the message \<open>No data\<close> the tooltip is a longer text, in both versions.
\<close>

theorem updateBadgeError_tooltip_counterexample:
  "action_title (updateBadgeError ''No data'' installed) \<noteq> [Lit ''No data'']
   \<and> action_title (updateBadgeError_circ ''No data'' installed) \<noteq> [Lit ''No data'']"
  by (simp add: updateBadgeError_def updateBadgeError_circ_def setIcon_def setBadgeText_def
      setTitle_def)

section \<open>The badge update\<close>

lemma get_prop_not_null:
  assumes "data \<noteq> JNull" and "data \<noteq> JUndefined"
  shows "get_prop data name = Inr (opt_prop data name)"
  using assms by (cases data) simp_all

text \<open>
  Claim C2, as the code has it. For every usage document (a JSON value other than
  \<open>null\<close>) whose \<open>five_hour\<close> entry is absent or falsy, \<open>updateBadge\<close> renders the error
  state \<open>No data\<close> and nothing else, so no percentage is shown. When \<open>five_hour\<close> is
  present and its \<open>utilization\<close> is absent or falsy, \<open>updateBadge\<close> does not render the
  error state: it renders the default percentage 0. Both versions of the service worker
  behave so.
\<close>

theorem updateBadge_missing_field:
  assumes "data \<noteq> JNull" and "data \<noteq> JUndefined"
  shows "(\<not> truthy (opt_prop data ''five_hour'') \<longrightarrow>
            updateBadge P data w = (Inr (), updateBadgeError ''No data'' w)
            \<and> updateBadge_circ P data w = (Inr (), updateBadgeError_circ ''No data'' w)
            \<and> action_badgeText (snd (updateBadge P data w)) = [Lit []]
            \<and> action_badgeText (snd (updateBadge_circ P data w)) = [Lit []])
         \<and> (truthy (opt_prop data ''five_hour'')
              \<and> \<not> truthy (opt_prop (opt_prop data ''five_hour'') ''utilization'') \<longrightarrow>
            action_badgeText (snd (updateBadge P data w)) = [ToStr (JNum 0), Lit ''%'']
            \<and> action_badgeText (snd (updateBadge_circ P data w)) = [ToStr (JNum 0), Lit ''%'']
            \<and> action_icon (snd (updateBadge P data w)) =
                 Some (IconImageData [(16, generateIcon P (JNum 0) 16),
                   (32, generateIcon P (JNum 0) 32), (48, generateIcon P (JNum 0) 48)]))"
proof -
  note get = get_prop_not_null [OF assms, of "''five_hour''"]
  have err: "\<not> truthy (opt_prop data ''five_hour'') \<longrightarrow>
      updateBadge P data w = (Inr (), updateBadgeError ''No data'' w)
      \<and> updateBadge_circ P data w = (Inr (), updateBadgeError_circ ''No data'' w)"
    by (simp add: updateBadge_def updateBadge_circ_def get)
  have badge: "action_badgeText (updateBadgeError ''No data'' w) = [Lit []]"
    "action_badgeText (updateBadgeError_circ ''No data'' w) = [Lit []]"
    by (simp_all add: updateBadgeError_def updateBadgeError_circ_def setIcon_def
        setBadgeText_def setTitle_def)
  have dflt: "truthy (opt_prop data ''five_hour'')
        \<and> \<not> truthy (opt_prop (opt_prop data ''five_hour'') ''utilization'') \<longrightarrow>
      action_badgeText (snd (updateBadge P data w)) = [ToStr (JNum 0), Lit ''%'']
      \<and> action_badgeText (snd (updateBadge_circ P data w)) = [ToStr (JNum 0), Lit ''%'']
      \<and> action_icon (snd (updateBadge P data w)) =
           Some (IconImageData [(16, generateIcon P (JNum 0) 16),
             (32, generateIcon P (JNum 0) 32), (48, generateIcon P (JNum 0) 48)])"
    by (simp add: updateBadge_def updateBadge_circ_def get js_or_def Let_def setIcon_def
        setBadgeText_def setBadgeTextColor_def setBadgeBackgroundColor_def setTitle_def)
  from err badge dflt show ?thesis
    by simp
qed

theorem updateBadge_missing_field_witness:
  "updateBadge (\<lambda>v. None) (JObj [(''seven_day'', JObj [(''utilization'', JNum 12)])]) installed =
     (Inr (), updateBadgeError ''No data'' installed)
   \<and> action_badgeText (snd (updateBadge (\<lambda>v. None)
        (JObj [(''five_hour'', JObj [(''utilization'', JNull)])]) installed)) =
       [ToStr (JNum 0), Lit ''%'']"
  using updateBadge_missing_field
      [of "JObj [(''seven_day'', JObj [(''utilization'', JNum 12)])]" "\<lambda>v. None" installed]
    updateBadge_missing_field
      [of "JObj [(''five_hour'', JObj [(''utilization'', JNull)])]" "\<lambda>v. None" installed]
  by simp

text \<open>
  Claim C2 as it is written also covers a document whose \<open>five_hour\<close> entry is present
  and lacks \<open>utilization\<close>. For the document \<open>{"five_hour": {}}\<close> the expected field is
  missing, and \<open>updateBadge\<close> shows the default \<open>0%\<close> on a generated icon instead of
  the error state.
\<close>

theorem updateBadge_missing_utilization_counterexample:
  "opt_prop (opt_prop (JObj [(''five_hour'', JObj [])]) ''five_hour'') ''utilization'' = JUndefined
   \<and> action_badgeText (snd (updateBadge (\<lambda>v. None) (JObj [(''five_hour'', JObj [])]) installed)) =
       [ToStr (JNum 0), Lit ''%'']
   \<and> action_icon (snd (updateBadge (\<lambda>v. None) (JObj [(''five_hour'', JObj [])]) installed)) \<noteq>
       Some (IconPath ''error-icon.png'')
   \<and> updateBadge (\<lambda>v. None) (JObj [(''five_hour'', JObj [])]) installed \<noteq>
       (Inr (), updateBadgeError ''No data'' installed)"
  by (simp add: updateBadge_def js_or_def Let_def setIcon_def setBadgeText_def
      setBadgeTextColor_def setBadgeBackgroundColor_def setTitle_def updateBadgeError_def
      installed_def)

section \<open>Resolving the organization identifier\<close>

lemma writes_append: "writes (xs @ ys) = writes xs @ writes ys"
  by (induction xs rule: writes.induct) simp_all

lemma bootstrap_fetches_append:
  "bootstrap_fetches (xs @ ys) = bootstrap_fetches xs + bootstrap_fetches ys"
  by (induction xs rule: bootstrap_fetches.induct) simp_all

lemma action_calls_append: "action_calls (xs @ ys) = action_calls xs @ action_calls ys"
  by (induction xs rule: action_calls.induct) simp_all

text \<open>The three ways through \<open>getOrganizationId\<close>: the cache answers, the bootstrap
  document answers, or the bootstrap step fails.\<close>

lemma getOrganizationId_cached:
  assumes "storage_orgId w = Some v" and "truthy v"
  shows "getOrganizationId net w = (Inr v, w\<lparr>calls := calls w @ [StorageGet]\<rparr>)"
  using assms by (simp add: getOrganizationId_def getOrganizationId_try_def storage_get_def)

lemma getOrganizationId_bootstrap:
  assumes "\<not> truthy (fst (storage_get w))"
    and "net Bootstrap = Response status (JsonBody data)"
    and "ok status"
    and "truthy (extractOrgId data)"
  shows "getOrganizationId net w =
           (Inr (extractOrgId data),
            w\<lparr>storage_orgId := Some (extractOrgId data),
              calls := calls w @ [StorageGet, Fetch Bootstrap, StorageSet (extractOrgId data)]\<rparr>)"
  using assms
  by (simp add: getOrganizationId_def getOrganizationId_try_def storage_get_def fetch_def
      storage_set_def Let_def)

lemma getOrganizationId_failed:
  assumes "\<not> truthy (fst (storage_get w))"
    and "case net Bootstrap of
           Rejected m \<Rightarrow> True
         | Response status body \<Rightarrow>
             \<not> ok status \<or>
             (case body of NotJson m \<Rightarrow> True | JsonBody data \<Rightarrow> \<not> truthy (extractOrgId data))"
  shows "getOrganizationId net w = (Inr JNull, w\<lparr>calls := calls w @ [StorageGet, Fetch Bootstrap]\<rparr>)"
  using assms
  by (auto simp add: getOrganizationId_def getOrganizationId_try_def storage_get_def fetch_def
      Let_def split: fetch_result.splits body.splits)

text \<open>
  Claim C8, as the code has it. Every execution of \<open>getOrganizationId\<close> returns a value
  and never an exception; the value is \<open>null\<close> or a truthy value, which is the cached
  value or the \<open>uuid\<close> found in a bootstrap document fetched with a success status,
  of whatever JSON type that is (the code does not ask for a string), and which, when it
  is a string, is not empty. The only value the execution may write to the cache is the
  truthy value it returns, so a cache that holds nothing falsy before holds nothing
  falsy after.
\<close>

theorem getOrganizationId_result:
  "\<exists>v w'. getOrganizationId net w = (Inr v, w')
     \<and> (v = JNull \<or> truthy v)
     \<and> (\<forall>s. v = JStr s \<longrightarrow> s \<noteq> [])
     \<and> (truthy v \<longrightarrow>
          storage_orgId w = Some v
          \<or> (\<exists>status data. net Bootstrap = Response status (JsonBody data) \<and> ok status
                \<and> v = extractOrgId data))
     \<and> (\<exists>cs. calls w' = calls w @ cs \<and> (writes cs = [] \<or> writes cs = [v] \<and> truthy v))
     \<and> (storage_orgId w' = storage_orgId w \<or> storage_orgId w' = Some v \<and> truthy v)
     \<and> ((\<forall>u. storage_orgId w = Some u \<longrightarrow> truthy u) \<longrightarrow>
          (\<forall>u. storage_orgId w' = Some u \<longrightarrow> truthy u))"
proof (cases "truthy (fst (storage_get w))")
  case True
  then obtain c where c: "storage_orgId w = Some c" "truthy c"
    by (auto simp add: storage_get_def split: option.splits)
  have "getOrganizationId net w = (Inr c, w\<lparr>calls := calls w @ [StorageGet]\<rparr>)"
    using c by (rule getOrganizationId_cached)
  then show ?thesis
    using c by auto
next
  case False
  show ?thesis
  proof (cases "case net Bootstrap of
           Rejected m \<Rightarrow> True
         | Response status body \<Rightarrow>
             \<not> ok status \<or>
             (case body of NotJson m \<Rightarrow> True | JsonBody data \<Rightarrow> \<not> truthy (extractOrgId data))")
    case True
    have "getOrganizationId net w = (Inr JNull, w\<lparr>calls := calls w @ [StorageGet, Fetch Bootstrap]\<rparr>)"
      using False True by (rule getOrganizationId_failed)
    then show ?thesis
      by auto
  next
    case ok: False
    then obtain status data where r: "net Bootstrap = Response status (JsonBody data)"
      "ok status" "truthy (extractOrgId data)"
      by (auto split: fetch_result.splits body.splits)
    have "getOrganizationId net w =
           (Inr (extractOrgId data),
            w\<lparr>storage_orgId := Some (extractOrgId data),
              calls := calls w @ [StorageGet, Fetch Bootstrap, StorageSet (extractOrgId data)]\<rparr>)"
      using False r by (rule getOrganizationId_bootstrap)
    then show ?thesis
      using r by auto
  qed
qed

theorem getOrganizationId_result_witness:
  "getOrganizationId
     (\<lambda>r. Response 200 (JsonBody (JObj [(''account'', JObj [(''memberships'',
        JArr [JObj [(''organization'', JObj [(''uuid'', JStr ''org-1'')])]])])])))
     installed =
     (Inr (JStr ''org-1''),
      installed\<lparr>storage_orgId := Some (JStr ''org-1''),
        calls := [StorageGet, Fetch Bootstrap, StorageSet (JStr ''org-1'')]\<rparr>)
   \<and> truthy (JStr ''org-1'')
   \<and> getOrganizationId (\<lambda>r. Response 503 (NotJson ''Unexpected token'')) installed =
       (Inr JNull, installed\<lparr>calls := [StorageGet, Fetch Bootstrap]\<rparr>)"
  using getOrganizationId_result
      [of "\<lambda>r. Response 200 (JsonBody (JObj [(''account'', JObj [(''memberships'',
        JArr [JObj [(''organization'', JObj [(''uuid'', JStr ''org-1'')])]])])]))" installed]
    getOrganizationId_result [of "\<lambda>r. Response 503 (NotJson ''Unexpected token'')" installed]
  by (simp add: getOrganizationId_def getOrganizationId_try_def storage_get_def fetch_def
      storage_set_def Let_def extractOrgId_def ok_def installed_def)

text \<open>
  Claim C8 as it is written says that the value returned is a string or \<open>null\<close>. For a
  bootstrap document whose \<open>uuid\<close> is the number 42, the function returns the number 42
  and stores it in the cache.
\<close>

theorem getOrganizationId_numeric_uuid_counterexample:
  "getOrganizationId
     (\<lambda>r. Response 200 (JsonBody (JObj [(''account'', JObj [(''memberships'',
        JArr [JObj [(''organization'', JObj [(''uuid'', JNum 42)])]])])])))
     installed =
     (Inr (JNum 42),
      installed\<lparr>storage_orgId := Some (JNum 42),
        calls := [StorageGet, Fetch Bootstrap, StorageSet (JNum 42)]\<rparr>)
   \<and> fst (getOrganizationId
        (\<lambda>r. Response 200 (JsonBody (JObj [(''account'', JObj [(''memberships'',
           JArr [JObj [(''organization'', JObj [(''uuid'', JNum 42)])]])])])))
        installed) \<noteq> Inr JNull
   \<and> fst (getOrganizationId
        (\<lambda>r. Response 200 (JsonBody (JObj [(''account'', JObj [(''memberships'',
           JArr [JObj [(''organization'', JObj [(''uuid'', JNum 42)])]])])])))
        installed) \<noteq> Inr (JStr ''42'')"
  by (simp add: getOrganizationId_def getOrganizationId_try_def storage_get_def fetch_def
      storage_set_def Let_def extractOrgId_def ok_def installed_def)

section \<open>Polling cycles and the cache\<close>

lemma updateBadge_frame:
  "storage_orgId (snd (updateBadge P data w)) = storage_orgId w"
  "writes (calls (snd (updateBadge P data w))) = writes (calls w)"
  "bootstrap_fetches (calls (snd (updateBadge P data w))) = bootstrap_fetches (calls w)"
  by (simp_all add: updateBadge_def Let_def setIcon_def setBadgeText_def setBadgeTextColor_def
      setBadgeBackgroundColor_def setTitle_def updateBadgeError_def writes_append
      bootstrap_fetches_append split: sum.splits)

text \<open>After the identifier is resolved, the rest of the cycle neither writes the cache
  nor requests the bootstrap document.\<close>

lemma updateBadge_frame_result:
  assumes "updateBadge P data w = (r, w')"
  shows "storage_orgId w' = storage_orgId w
         \<and> writes (calls w') = writes (calls w)
         \<and> bootstrap_fetches (calls w') = bootstrap_fetches (calls w)"
  using updateBadge_frame [of P data w] assms by simp

lemma cycle_after_id:
  assumes "getOrganizationId net w = (Inr orgId, w1)"
  shows "storage_orgId (onAlarm P net w) = storage_orgId w1"
    and "writes (calls (onAlarm P net w)) = writes (calls w1)"
    and "bootstrap_fetches (calls (onAlarm P net w)) = bootstrap_fetches (calls w1)"
  using assms
  by (auto simp add: onAlarm_def fetchAndUpdateUsage_def fetchAndUpdateUsage_try_def fetch_def
      Let_def updateBadgeError_calls updateBadgeError_storage writes_append
      bootstrap_fetches_append
      split: prod.splits sum.splits fetch_result.splits body.splits
      dest!: updateBadge_frame_result)

lemma cycle_cached:
  assumes "storage_orgId w = Some v" and "truthy v"
  shows "storage_orgId (onAlarm P net w) = Some v"
    and "writes (calls (onAlarm P net w)) = writes (calls w)"
    and "bootstrap_fetches (calls (onAlarm P net w)) = bootstrap_fetches (calls w)"
  using cycle_after_id [OF getOrganizationId_cached [OF assms], of P net] assms
  by (simp_all add: writes_append bootstrap_fetches_append)

lemma polling_cached:
  assumes "storage_orgId w = Some v" and "truthy v"
  shows "storage_orgId (polling P nets w) = Some v
         \<and> writes (calls (polling P nets w)) = writes (calls w)
         \<and> bootstrap_fetches (calls (polling P nets w)) = bootstrap_fetches (calls w)"
  using assms
proof (induction nets arbitrary: w)
  case Nil
  then show ?case by simp
next
  case (Cons net nets)
  have step: "storage_orgId (onAlarm P net w) = Some v"
    using Cons.prems by (rule cycle_cached)
  from Cons.IH [OF step Cons.prems(2)] cycle_cached(2,3) [OF Cons.prems, of P net]
  show ?case by simp
qed

lemma cycle_bootstrap:
  assumes "\<not> truthy (fst (storage_get w))"
    and "net Bootstrap = Response status (JsonBody data)"
    and "ok status"
    and "truthy (extractOrgId data)"
  shows "storage_orgId (onAlarm P net w) = Some (extractOrgId data)"
    and "writes (calls (onAlarm P net w)) = writes (calls w) @ [extractOrgId data]"
    and "bootstrap_fetches (calls (onAlarm P net w)) = bootstrap_fetches (calls w) + 1"
proof -
  have resolved: "getOrganizationId net w =
      (Inr (extractOrgId data),
       w\<lparr>storage_orgId := Some (extractOrgId data),
         calls := calls w @ [StorageGet, Fetch Bootstrap, StorageSet (extractOrgId data)]\<rparr>)"
    using assms by (rule getOrganizationId_bootstrap)
  show "storage_orgId (onAlarm P net w) = Some (extractOrgId data)"
    and "writes (calls (onAlarm P net w)) = writes (calls w) @ [extractOrgId data]"
    and "bootstrap_fetches (calls (onAlarm P net w)) = bootstrap_fetches (calls w) + 1"
    using cycle_after_id [OF resolved, of P]
    by (simp_all add: writes_append bootstrap_fetches_append)
qed

text \<open>
  Claim C3. Take a cycle that finds the cache empty (\<open>cached.orgId\<close> is falsy), whose
  bootstrap fetch succeeds and yields an identifier. The identifier is returned and
  stored; over that cycle and any number of cycles after it, whatever the network
  answers in them, the cache is written exactly once (with that identifier) and the
  bootstrap document is requested exactly once; and every later call of
  \<open>getOrganizationId\<close> returns the cached identifier after reading the cache and doing
  nothing else.
\<close>

theorem orgId_cached_once:
  assumes "\<not> truthy (fst (storage_get w))"
    and "net Bootstrap = Response status (JsonBody data)"
    and "ok status"
    and "truthy (extractOrgId data)"
  shows "fst (getOrganizationId net w) = Inr (extractOrgId data)
         \<and> storage_orgId (snd (getOrganizationId net w)) = Some (extractOrgId data)
         \<and> writes (calls (polling P (net # nets) w)) = writes (calls w) @ [extractOrgId data]
         \<and> bootstrap_fetches (calls (polling P (net # nets) w)) = bootstrap_fetches (calls w) + 1
         \<and> storage_orgId (polling P (net # nets) w) = Some (extractOrgId data)
         \<and> getOrganizationId net' (polling P (net # nets) w) =
             (Inr (extractOrgId data),
              (polling P (net # nets) w)
                \<lparr>calls := calls (polling P (net # nets) w) @ [StorageGet]\<rparr>)"
proof -
  have resolved: "getOrganizationId net w =
      (Inr (extractOrgId data),
       w\<lparr>storage_orgId := Some (extractOrgId data),
         calls := calls w @ [StorageGet, Fetch Bootstrap, StorageSet (extractOrgId data)]\<rparr>)"
    using assms by (rule getOrganizationId_bootstrap)
  have first: "storage_orgId (onAlarm P net w) = Some (extractOrgId data)"
    "writes (calls (onAlarm P net w)) = writes (calls w) @ [extractOrgId data]"
    "bootstrap_fetches (calls (onAlarm P net w)) = bootstrap_fetches (calls w) + 1"
    using assms by (rule cycle_bootstrap)+
  have later: "storage_orgId (polling P nets (onAlarm P net w)) = Some (extractOrgId data)
      \<and> writes (calls (polling P nets (onAlarm P net w))) = writes (calls (onAlarm P net w))
      \<and> bootstrap_fetches (calls (polling P nets (onAlarm P net w))) =
          bootstrap_fetches (calls (onAlarm P net w))"
    using first(1) assms(4) by (rule polling_cached)
  have again: "getOrganizationId net' (polling P (net # nets) w) =
      (Inr (extractOrgId data),
       (polling P (net # nets) w)\<lparr>calls := calls (polling P (net # nets) w) @ [StorageGet]\<rparr>)"
    using later assms(4) by (intro getOrganizationId_cached) simp_all
  from resolved first later again show ?thesis
    by simp
qed

theorem orgId_cached_once_witness:
  "\<not> truthy (fst (storage_get installed))
   \<and> ok 200
   \<and> truthy (extractOrgId (JObj [(''account'', JObj [(''memberships'',
        JArr [JObj [(''organization'', JObj [(''uuid'', JStr ''org-1'')])]])])]))
   \<and> writes (calls (polling (\<lambda>v. None)
        [\<lambda>r. Response 200 (JsonBody (JObj [(''account'', JObj [(''memberships'',
            JArr [JObj [(''organization'', JObj [(''uuid'', JStr ''org-1'')])]])])])),
         \<lambda>r. Response 500 (NotJson ''down'')] installed)) = [JStr ''org-1'']
   \<and> bootstrap_fetches (calls (polling (\<lambda>v. None)
        [\<lambda>r. Response 200 (JsonBody (JObj [(''account'', JObj [(''memberships'',
            JArr [JObj [(''organization'', JObj [(''uuid'', JStr ''org-1'')])]])])])),
         \<lambda>r. Response 500 (NotJson ''down'')] installed)) = 1"
proof -
  have empty: "\<not> truthy (fst (storage_get installed))"
    by (simp add: storage_get_def installed_def)
  have status: "ok 200"
    by (simp add: ok_def)
  have uuid: "extractOrgId (JObj [(''account'', JObj [(''memberships'',
        JArr [JObj [(''organization'', JObj [(''uuid'', JStr ''org-1'')])]])])]) = JStr ''org-1''"
    by (simp add: extractOrgId_def)
  have none: "writes (calls installed) = []" "bootstrap_fetches (calls installed) = 0"
    by (simp_all add: installed_def)
  show ?thesis
    using orgId_cached_once
      [of installed
        "\<lambda>r. Response 200 (JsonBody (JObj [(''account'', JObj [(''memberships'',
            JArr [JObj [(''organization'', JObj [(''uuid'', JStr ''org-1'')])]])])]))"
        200
        "JObj [(''account'', JObj [(''memberships'',
            JArr [JObj [(''organization'', JObj [(''uuid'', JStr ''org-1'')])]])])]"
        "\<lambda>v. None" "[\<lambda>r. Response 500 (NotJson ''down'')]" "\<lambda>r. Rejected ''offline''"]
      empty status
    by (simp only: uuid none) simp
qed

section \<open>Failing cycles\<close>

text \<open>Resolving the identifier makes no call to \<open>chrome.action\<close>.\<close>

lemma getOrganizationId_action_calls:
  assumes "getOrganizationId net w = (r, w1)"
  shows "action_calls (calls w1) = action_calls (calls w)"
  using assms
  by (auto simp add: getOrganizationId_def getOrganizationId_try_def storage_get_def fetch_def
      storage_set_def Let_def action_calls_append
      split: if_splits fetch_result.splits body.splits)

text \<open>The cycle when no identifier is resolved, and when the usage request gets a
  response with a non-success status.\<close>

lemma cycle_no_orgId:
  assumes "getOrganizationId net w = (Inr orgId, w1)" and "\<not> truthy orgId"
  shows "fetchAndUpdateUsage P net w = (Inr (), updateBadgeError ''No org ID'' w1)"
    and "fetchAndUpdateUsage_circ P net w = (Inr (), updateBadgeError_circ ''No org ID'' w1)"
  using assms
  by (simp_all add: fetchAndUpdateUsage_def fetchAndUpdateUsage_try_def
      fetchAndUpdateUsage_circ_def fetchAndUpdateUsage_circ_try_def)

lemma cycle_usage_status:
  assumes "getOrganizationId net w = (Inr orgId, w1)" and "truthy orgId"
    and "net (Usage orgId) = Response status body" and "\<not> ok status"
  shows "fetchAndUpdateUsage P net w =
           (Inr (), updateBadgeError (''HTTP '' @ dec status)
                      (w1\<lparr>calls := calls w1 @ [Fetch (Usage orgId)]\<rparr>))"
    and "fetchAndUpdateUsage_circ P net w =
           (Inr (), updateBadgeError_circ (''HTTP '' @ dec status)
                      (w1\<lparr>calls := calls w1 @ [Fetch (Usage orgId)]\<rparr>))"
  using assms
  by (simp_all add: fetchAndUpdateUsage_def fetchAndUpdateUsage_try_def
      fetchAndUpdateUsage_circ_def fetchAndUpdateUsage_circ_try_def fetch_def)

text \<open>
  Claim C4. A cycle in which the bootstrap endpoint is asked (the cache is empty) and
  answers with a non-success status ends in the error state \<open>No org ID\<close>; a cycle in
  which the identifier is resolved and the usage endpoint answers with a non-success
  status ends in the error state \<open>HTTP\<close> followed by the status. In both,
  \<open>fetchAndUpdateUsage\<close> returns normally (\<open>Inr\<close>): no exception leaves it, and the
  calls the cycle makes to \<open>chrome.action\<close> are the three of the error renderer: the
  error icon, the empty badge, the tooltip with the message. Both versions of the
  service worker behave so.
\<close>

theorem non_success_status_error_state:
  "(\<not> truthy (fst (storage_get w)) \<and> net Bootstrap = Response status body \<and> \<not> ok status \<longrightarrow>
      fetchAndUpdateUsage P net w =
        (Inr (), updateBadgeError ''No org ID''
                   (w\<lparr>calls := calls w @ [StorageGet, Fetch Bootstrap]\<rparr>))
      \<and> fetchAndUpdateUsage_circ P net w =
        (Inr (), updateBadgeError_circ ''No org ID''
                   (w\<lparr>calls := calls w @ [StorageGet, Fetch Bootstrap]\<rparr>))
      \<and> action_calls (calls (snd (fetchAndUpdateUsage P net w))) =
          action_calls (calls w) @
            [SetIcon (IconPath ''error-icon.png''), SetBadgeText [Lit []],
             SetTitle [Lit (''Make sure you are logged in to Claude.ai!'' @ newline
                            @ ''Error: '' @ ''No org ID'')]]
      \<and> action_calls (calls (snd (fetchAndUpdateUsage_circ P net w))) =
          action_calls (calls w) @
            [SetIcon (IconImageData [(16, errorIcon), (32, errorIcon), (48, errorIcon)]),
             SetBadgeText [Lit []],
             SetTitle [Lit (''Claude Usage Monitor'' @ newline @ ''Error: '' @ ''No org ID'')]])
   \<and> (getOrganizationId net w = (Inr orgId, w1) \<and> truthy orgId
        \<and> net (Usage orgId) = Response status body \<and> \<not> ok status \<longrightarrow>
      fetchAndUpdateUsage P net w =
        (Inr (), updateBadgeError (''HTTP '' @ dec status)
                   (w1\<lparr>calls := calls w1 @ [Fetch (Usage orgId)]\<rparr>))
      \<and> fetchAndUpdateUsage_circ P net w =
        (Inr (), updateBadgeError_circ (''HTTP '' @ dec status)
                   (w1\<lparr>calls := calls w1 @ [Fetch (Usage orgId)]\<rparr>))
      \<and> action_calls (calls (snd (fetchAndUpdateUsage P net w))) =
          action_calls (calls w) @
            [SetIcon (IconPath ''error-icon.png''), SetBadgeText [Lit []],
             SetTitle [Lit (''Make sure you are logged in to Claude.ai!'' @ newline
                            @ ''Error: '' @ ''HTTP '' @ dec status)]]
      \<and> action_calls (calls (snd (fetchAndUpdateUsage_circ P net w))) =
          action_calls (calls w) @
            [SetIcon (IconImageData [(16, errorIcon), (32, errorIcon), (48, errorIcon)]),
             SetBadgeText [Lit []],
             SetTitle [Lit (''Claude Usage Monitor'' @ newline @ ''Error: '' @ ''HTTP ''
                            @ dec status)]])"
proof -
  have bootstrap: "fetchAndUpdateUsage P net w =
        (Inr (), updateBadgeError ''No org ID''
                   (w\<lparr>calls := calls w @ [StorageGet, Fetch Bootstrap]\<rparr>))
      \<and> fetchAndUpdateUsage_circ P net w =
        (Inr (), updateBadgeError_circ ''No org ID''
                   (w\<lparr>calls := calls w @ [StorageGet, Fetch Bootstrap]\<rparr>))"
    if h: "\<not> truthy (fst (storage_get w))" "net Bootstrap = Response status body" "\<not> ok status"
  proof -
    have "getOrganizationId net w =
        (Inr JNull, w\<lparr>calls := calls w @ [StorageGet, Fetch Bootstrap]\<rparr>)"
      using h by (intro getOrganizationId_failed) simp_all
    then show ?thesis
      using cycle_no_orgId [of net w JNull _ P] by simp
  qed
  have bootstrap_calls:
    "action_calls (calls (snd (fetchAndUpdateUsage P net w))) =
          action_calls (calls w) @
            [SetIcon (IconPath ''error-icon.png''), SetBadgeText [Lit []],
             SetTitle [Lit (''Make sure you are logged in to Claude.ai!'' @ newline
                            @ ''Error: '' @ ''No org ID'')]]
     \<and> action_calls (calls (snd (fetchAndUpdateUsage_circ P net w))) =
          action_calls (calls w) @
            [SetIcon (IconImageData [(16, errorIcon), (32, errorIcon), (48, errorIcon)]),
             SetBadgeText [Lit []],
             SetTitle [Lit (''Claude Usage Monitor'' @ newline @ ''Error: '' @ ''No org ID'')]]"
    if h: "\<not> truthy (fst (storage_get w))" "net Bootstrap = Response status body" "\<not> ok status"
    using bootstrap [OF h]
    by (simp add: updateBadgeError_calls updateBadgeError_circ_calls action_calls_append)
  have usage: "fetchAndUpdateUsage P net w =
        (Inr (), updateBadgeError (''HTTP '' @ dec status)
                   (w1\<lparr>calls := calls w1 @ [Fetch (Usage orgId)]\<rparr>))
      \<and> fetchAndUpdateUsage_circ P net w =
        (Inr (), updateBadgeError_circ (''HTTP '' @ dec status)
                   (w1\<lparr>calls := calls w1 @ [Fetch (Usage orgId)]\<rparr>))"
    if h: "getOrganizationId net w = (Inr orgId, w1)" "truthy orgId"
      "net (Usage orgId) = Response status body" "\<not> ok status"
    using cycle_usage_status [OF h] by simp
  have usage_calls:
    "action_calls (calls (snd (fetchAndUpdateUsage P net w))) =
          action_calls (calls w) @
            [SetIcon (IconPath ''error-icon.png''), SetBadgeText [Lit []],
             SetTitle [Lit (''Make sure you are logged in to Claude.ai!'' @ newline
                            @ ''Error: '' @ ''HTTP '' @ dec status)]]
     \<and> action_calls (calls (snd (fetchAndUpdateUsage_circ P net w))) =
          action_calls (calls w) @
            [SetIcon (IconImageData [(16, errorIcon), (32, errorIcon), (48, errorIcon)]),
             SetBadgeText [Lit []],
             SetTitle [Lit (''Claude Usage Monitor'' @ newline @ ''Error: '' @ ''HTTP ''
                            @ dec status)]]"
    if h: "getOrganizationId net w = (Inr orgId, w1)" "truthy orgId"
      "net (Usage orgId) = Response status body" "\<not> ok status"
    using usage [OF h] getOrganizationId_action_calls [OF h(1)]
    by (simp add: updateBadgeError_calls updateBadgeError_circ_calls action_calls_append)
  from bootstrap bootstrap_calls usage usage_calls show ?thesis
    by blast
qed

lemma dec_403: "dec 403 = ''403''"
  by (simp add: dec.simps [of 403] dec.simps [of 40] dec.simps [of 4])

theorem non_success_status_error_state_witness:
  "fetchAndUpdateUsage (\<lambda>v. None) (\<lambda>r. Response 500 (NotJson ''Internal Server Error'')) installed =
     (Inr (), updateBadgeError ''No org ID'' (installed\<lparr>calls := [StorageGet, Fetch Bootstrap]\<rparr>))
   \<and> fetchAndUpdateUsage (\<lambda>v. None) (\<lambda>r. Response 403 (JsonBody JNull))
        (installed\<lparr>storage_orgId := Some (JStr ''org-1'')\<rparr>) =
     (Inr (), updateBadgeError ''HTTP 403''
        (installed\<lparr>storage_orgId := Some (JStr ''org-1''),
           calls := [StorageGet, Fetch (Usage (JStr ''org-1''))]\<rparr>))"
proof -
  have a: "\<not> truthy (fst (storage_get installed))" "\<not> ok 500" "\<not> ok 403"
    by (simp_all add: storage_get_def installed_def ok_def)
  have b: "getOrganizationId (\<lambda>r. Response 403 (JsonBody JNull))
        (installed\<lparr>storage_orgId := Some (JStr ''org-1'')\<rparr>) =
      (Inr (JStr ''org-1''), installed\<lparr>storage_orgId := Some (JStr ''org-1''), calls := [StorageGet]\<rparr>)"
    by (simp add: getOrganizationId_def getOrganizationId_try_def storage_get_def installed_def)
  show ?thesis
    using non_success_status_error_state
        [of installed "\<lambda>r. Response 500 (NotJson ''Internal Server Error'')" 500
          "NotJson ''Internal Server Error''" "\<lambda>v. None"]
      non_success_status_error_state
        [of "installed\<lparr>storage_orgId := Some (JStr ''org-1'')\<rparr>"
          "\<lambda>r. Response 403 (JsonBody JNull)" 403 "JsonBody JNull" "\<lambda>v. None" "JStr ''org-1''"
          "installed\<lparr>storage_orgId := Some (JStr ''org-1''), calls := [StorageGet]\<rparr>"]
      a b
    by (simp add: dec_403 installed_def)
qed

text \<open>The cycle when the usage request is rejected, when its body is not JSON, and when
  the document has no \<open>five_hour\<close> entry.\<close>

lemma cycle_usage_rejected:
  assumes "getOrganizationId net w = (Inr orgId, w1)" and "truthy orgId"
    and "net (Usage orgId) = Rejected m"
  shows "fetchAndUpdateUsage P net w =
           (Inr (), updateBadgeError m (w1\<lparr>calls := calls w1 @ [Fetch (Usage orgId)]\<rparr>))"
    and "fetchAndUpdateUsage_circ P net w =
           (Inr (), updateBadgeError_circ m (w1\<lparr>calls := calls w1 @ [Fetch (Usage orgId)]\<rparr>))"
  using assms
  by (simp_all add: fetchAndUpdateUsage_def fetchAndUpdateUsage_try_def
      fetchAndUpdateUsage_circ_def fetchAndUpdateUsage_circ_try_def fetch_def)

lemma cycle_usage_not_json:
  assumes "getOrganizationId net w = (Inr orgId, w1)" and "truthy orgId"
    and "net (Usage orgId) = Response status (NotJson m)" and "ok status"
  shows "fetchAndUpdateUsage P net w =
           (Inr (), updateBadgeError m (w1\<lparr>calls := calls w1 @ [Fetch (Usage orgId)]\<rparr>))"
    and "fetchAndUpdateUsage_circ P net w =
           (Inr (), updateBadgeError_circ m (w1\<lparr>calls := calls w1 @ [Fetch (Usage orgId)]\<rparr>))"
  using assms
  by (simp_all add: fetchAndUpdateUsage_def fetchAndUpdateUsage_try_def
      fetchAndUpdateUsage_circ_def fetchAndUpdateUsage_circ_try_def fetch_def)

lemma cycle_usage_no_field:
  assumes "getOrganizationId net w = (Inr orgId, w1)" and "truthy orgId"
    and "net (Usage orgId) = Response status (JsonBody data)" and "ok status"
    and "data = JNull \<or> data = JUndefined \<or> \<not> truthy (opt_prop data ''five_hour'')"
  shows "\<exists>m. fetchAndUpdateUsage P net w =
           (Inr (), updateBadgeError m (w1\<lparr>calls := calls w1 @ [Fetch (Usage orgId)]\<rparr>))
         \<and> fetchAndUpdateUsage_circ P net w =
           (Inr (), updateBadgeError_circ m (w1\<lparr>calls := calls w1 @ [Fetch (Usage orgId)]\<rparr>))"
proof (cases "data = JNull \<or> data = JUndefined")
  case True
  then have "\<exists>m. get_prop data ''five_hour'' = Inl (TypeError m)"
    by auto
  then show ?thesis
    using assms(1-4)
    by (auto simp add: fetchAndUpdateUsage_def fetchAndUpdateUsage_try_def
        fetchAndUpdateUsage_circ_def fetchAndUpdateUsage_circ_try_def fetch_def
        updateBadge_def updateBadge_circ_def)
next
  case False
  then have "get_prop data ''five_hour'' = Inr (opt_prop data ''five_hour'')"
    and "\<not> truthy (opt_prop data ''five_hour'')"
    using assms(5) by (simp_all add: get_prop_not_null)
  then show ?thesis
    using assms(1-4)
    by (auto simp add: fetchAndUpdateUsage_def fetchAndUpdateUsage_try_def
        fetchAndUpdateUsage_circ_def fetchAndUpdateUsage_circ_try_def fetch_def
        updateBadge_def updateBadge_circ_def)
qed

text \<open>
  Claim C7, as the code has it. The failures of a polling cycle are these: the
  identifier is not resolved (the cache is empty and the bootstrap request is rejected,
  or answered with a non-success status, or with a body that is not JSON, or with a
  document without the identifier), or the identifier is resolved and the usage request
  is rejected or answered with a non-success status (the fetch fails), or with a body
  that is not JSON (the parse fails), or with a document that is \<open>null\<close> or has no
  truthy \<open>five_hour\<close> entry (the extraction of \<open>five_hour\<close> fails). Every such cycle
  ends, without an exception, in the error state rendered on a state in which the cycle
  has made no call to \<open>chrome.action\<close>: the three calls of the error renderer are the
  only ones the cycle makes, and the normal update of icon, badge and tooltip does not
  run. Both versions of the service worker behave so. The absence of \<open>utilization\<close>
  in a \<open>five_hour\<close> entry that is present is not among the failures.
\<close>

theorem failed_cycle_error_state:
  assumes "(\<not> truthy (fst (storage_get w))
            \<and> ((\<exists>m. net Bootstrap = Rejected m)
               \<or> (\<exists>status body. net Bootstrap = Response status body \<and> \<not> ok status)
               \<or> (\<exists>status m. net Bootstrap = Response status (NotJson m))
               \<or> (\<exists>status data. net Bootstrap = Response status (JsonBody data)
                     \<and> \<not> truthy (extractOrgId data))))
         \<or> (\<exists>orgId w1. getOrganizationId net w = (Inr orgId, w1) \<and> truthy orgId
               \<and> ((\<exists>m. net (Usage orgId) = Rejected m)
                  \<or> (\<exists>status body. net (Usage orgId) = Response status body \<and> \<not> ok status)
                  \<or> (\<exists>status m. net (Usage orgId) = Response status (NotJson m))
                  \<or> (\<exists>status data. net (Usage orgId) = Response status (JsonBody data)
                        \<and> (data = JNull \<or> data = JUndefined
                            \<or> \<not> truthy (opt_prop data ''five_hour'')))))"
  shows "\<exists>m w'. fetchAndUpdateUsage P net w = (Inr (), updateBadgeError m w')
           \<and> fetchAndUpdateUsage_circ P net w = (Inr (), updateBadgeError_circ m w')
           \<and> action_calls (calls w') = action_calls (calls w)
           \<and> action_calls (calls (snd (fetchAndUpdateUsage P net w))) =
               action_calls (calls w) @
                 [SetIcon (IconPath ''error-icon.png''), SetBadgeText [Lit []],
                  SetTitle [Lit (''Make sure you are logged in to Claude.ai!'' @ newline
                                 @ ''Error: '' @ m)]]
           \<and> action_calls (calls (snd (fetchAndUpdateUsage_circ P net w))) =
               action_calls (calls w) @
                 [SetIcon (IconImageData [(16, errorIcon), (32, errorIcon), (48, errorIcon)]),
                  SetBadgeText [Lit []],
                  SetTitle [Lit (''Claude Usage Monitor'' @ newline @ ''Error: '' @ m)]]"
proof -
  let ?core = "\<exists>m w'. fetchAndUpdateUsage P net w = (Inr (), updateBadgeError m w')
           \<and> fetchAndUpdateUsage_circ P net w = (Inr (), updateBadgeError_circ m w')
           \<and> action_calls (calls w') = action_calls (calls w)"
  have unresolved: ?core
    if empty: "\<not> truthy (fst (storage_get w))"
      and fails: "(\<exists>m. net Bootstrap = Rejected m)
               \<or> (\<exists>status body. net Bootstrap = Response status body \<and> \<not> ok status)
               \<or> (\<exists>status m. net Bootstrap = Response status (NotJson m))
               \<or> (\<exists>status data. net Bootstrap = Response status (JsonBody data)
                     \<and> \<not> truthy (extractOrgId data))"
  proof -
    from fails have "case net Bootstrap of
           Rejected m \<Rightarrow> True
         | Response status body \<Rightarrow>
             \<not> ok status \<or>
             (case body of NotJson m \<Rightarrow> True | JsonBody data \<Rightarrow> \<not> truthy (extractOrgId data))"
      by auto
    with empty have g: "getOrganizationId net w =
        (Inr JNull, w\<lparr>calls := calls w @ [StorageGet, Fetch Bootstrap]\<rparr>)"
      by (rule getOrganizationId_failed)
    have quiet: "action_calls (calls (w\<lparr>calls := calls w @ [StorageGet, Fetch Bootstrap]\<rparr>)) =
        action_calls (calls w)"
      by (simp add: action_calls_append)
    have "\<not> truthy JNull"
      by simp
    from cycle_no_orgId [OF g this, of P] quiet show ?thesis
      by blast
  qed
  have resolved: ?core
    if g: "getOrganizationId net w = (Inr orgId, w1)" and t: "truthy orgId"
      and fails: "(\<exists>m. net (Usage orgId) = Rejected m)
                  \<or> (\<exists>status body. net (Usage orgId) = Response status body \<and> \<not> ok status)
                  \<or> (\<exists>status m. net (Usage orgId) = Response status (NotJson m))
                  \<or> (\<exists>status data. net (Usage orgId) = Response status (JsonBody data)
                        \<and> (data = JNull \<or> data = JUndefined
                            \<or> \<not> truthy (opt_prop data ''five_hour'')))"
    for orgId w1
  proof -
    have quiet: "action_calls (calls (w1\<lparr>calls := calls w1 @ [Fetch (Usage orgId)]\<rparr>)) =
        action_calls (calls w)"
      using getOrganizationId_action_calls [OF g] by (simp add: action_calls_append)
    from fails consider
      (rejected) m where "net (Usage orgId) = Rejected m"
      | (status) status body where "net (Usage orgId) = Response status body" "\<not> ok status"
      | (parse) status m where "net (Usage orgId) = Response status (NotJson m)" "ok status"
      | (field) status data where "net (Usage orgId) = Response status (JsonBody data)" "ok status"
          "data = JNull \<or> data = JUndefined \<or> \<not> truthy (opt_prop data ''five_hour'')"
      by blast
    then show ?thesis
    proof cases
      case rejected
      from cycle_usage_rejected [OF g t this, of P] quiet show ?thesis by blast
    next
      case status
      from cycle_usage_status [OF g t this, of P] quiet show ?thesis by blast
    next
      case parse
      from cycle_usage_not_json [OF g t this, of P] quiet show ?thesis by blast
    next
      case field
      from cycle_usage_no_field [OF g t this, of P] quiet show ?thesis by blast
    qed
  qed
  from assms unresolved resolved have ?core
    by blast
  then obtain m w' where
    r: "fetchAndUpdateUsage P net w = (Inr (), updateBadgeError m w')"
      "fetchAndUpdateUsage_circ P net w = (Inr (), updateBadgeError_circ m w')"
      "action_calls (calls w') = action_calls (calls w)"
    by blast
  have "action_calls (calls (snd (fetchAndUpdateUsage P net w))) =
      action_calls (calls w) @
        [SetIcon (IconPath ''error-icon.png''), SetBadgeText [Lit []],
         SetTitle [Lit (''Make sure you are logged in to Claude.ai!'' @ newline @ ''Error: '' @ m)]]"
    using r(1,3) by (simp add: updateBadgeError_calls action_calls_append)
  moreover have "action_calls (calls (snd (fetchAndUpdateUsage_circ P net w))) =
      action_calls (calls w) @
        [SetIcon (IconImageData [(16, errorIcon), (32, errorIcon), (48, errorIcon)]),
         SetBadgeText [Lit []],
         SetTitle [Lit (''Claude Usage Monitor'' @ newline @ ''Error: '' @ m)]]"
    using r(2,3) by (simp add: updateBadgeError_circ_calls action_calls_append)
  ultimately show ?thesis
    using r by blast
qed

theorem failed_cycle_error_state_witness:
  "fetchAndUpdateUsage (\<lambda>v. None) (\<lambda>r. Response 200 (JsonBody (JObj [(''seven_day'', JNull)])))
     (installed\<lparr>storage_orgId := Some (JStr ''org-1'')\<rparr>) =
     (Inr (), updateBadgeError ''No data''
        (installed\<lparr>storage_orgId := Some (JStr ''org-1''),
           calls := [StorageGet, Fetch (Usage (JStr ''org-1''))]\<rparr>))
   \<and> action_calls (calls (snd (fetchAndUpdateUsage (\<lambda>v. None) (\<lambda>r. Rejected ''Failed to fetch'')
        installed))) =
       [SetIcon (IconPath ''error-icon.png''), SetBadgeText [Lit []],
        SetTitle [Lit (''Make sure you are logged in to Claude.ai!'' @ newline
                       @ ''Error: No org ID'')]]"
proof -
  have resolved: "getOrganizationId (\<lambda>r. Response 200 (JsonBody (JObj [(''seven_day'', JNull)])))
        (installed\<lparr>storage_orgId := Some (JStr ''org-1'')\<rparr>) =
      (Inr (JStr ''org-1''),
       installed\<lparr>storage_orgId := Some (JStr ''org-1''), calls := [StorageGet]\<rparr>)"
    by (simp add: getOrganizationId_def getOrganizationId_try_def storage_get_def installed_def)
  have field: "\<exists>m w'. fetchAndUpdateUsage (\<lambda>v. None)
        (\<lambda>r. Response 200 (JsonBody (JObj [(''seven_day'', JNull)])))
        (installed\<lparr>storage_orgId := Some (JStr ''org-1'')\<rparr>) = (Inr (), updateBadgeError m w')"
    using failed_cycle_error_state
        [of "installed\<lparr>storage_orgId := Some (JStr ''org-1'')\<rparr>"
          "\<lambda>r. Response 200 (JsonBody (JObj [(''seven_day'', JNull)]))" "\<lambda>v. None"]
      resolved
    by auto
  have empty: "\<not> truthy (fst (storage_get installed))"
    by (simp add: storage_get_def installed_def)
  have offline: "\<exists>m. action_calls (calls (snd (fetchAndUpdateUsage (\<lambda>v. None)
        (\<lambda>r. Rejected ''Failed to fetch'') installed))) =
      [SetIcon (IconPath ''error-icon.png''), SetBadgeText [Lit []],
       SetTitle [Lit (''Make sure you are logged in to Claude.ai!'' @ newline @ ''Error: '' @ m)]]"
    using failed_cycle_error_state [of installed "\<lambda>r. Rejected ''Failed to fetch''" "\<lambda>v. None"]
      empty
    by (auto simp add: installed_def)
  have run1: "fetchAndUpdateUsage (\<lambda>v. None)
        (\<lambda>r. Response 200 (JsonBody (JObj [(''seven_day'', JNull)])))
        (installed\<lparr>storage_orgId := Some (JStr ''org-1'')\<rparr>) =
      (Inr (), updateBadgeError ''No data''
        (installed\<lparr>storage_orgId := Some (JStr ''org-1''),
           calls := [StorageGet, Fetch (Usage (JStr ''org-1''))]\<rparr>))"
    using field
    by (simp add: fetchAndUpdateUsage_def fetchAndUpdateUsage_try_def resolved fetch_def ok_def
        updateBadge_def)
  have run2: "action_calls (calls (snd (fetchAndUpdateUsage (\<lambda>v. None)
        (\<lambda>r. Rejected ''Failed to fetch'') installed))) =
      [SetIcon (IconPath ''error-icon.png''), SetBadgeText [Lit []],
       SetTitle [Lit (''Make sure you are logged in to Claude.ai!'' @ newline @ ''Error: No org ID'')]]"
    using offline
    by (simp add: fetchAndUpdateUsage_def fetchAndUpdateUsage_try_def getOrganizationId_def
        getOrganizationId_try_def storage_get_def fetch_def updateBadgeError_def setIcon_def
        setBadgeText_def setTitle_def installed_def)
  from run1 run2 show ?thesis
    by simp
qed

text \<open>
  Claim C7 as it is written counts every failure of the field extraction, and the
  expected field of the usage document is \<open>five_hour.utilization\<close>. With the identifier
  in the cache and the usage endpoint answering 200 with the document
  \<open>{"five_hour": {}}\<close>, the extraction of \<open>utilization\<close> finds nothing, and yet the
  cycle does not render the error state: the normal update runs and shows \<open>0%\<close>, in
  both versions.
\<close>

theorem failed_cycle_missing_utilization_counterexample:
  "getOrganizationId (\<lambda>r. Response 200 (JsonBody (JObj [(''five_hour'', JObj [])])))
     (installed\<lparr>storage_orgId := Some (JStr ''org-1'')\<rparr>) =
     (Inr (JStr ''org-1''),
      installed\<lparr>storage_orgId := Some (JStr ''org-1''), calls := [StorageGet]\<rparr>)
   \<and> opt_prop (opt_prop (JObj [(''five_hour'', JObj [])]) ''five_hour'') ''utilization'' = JUndefined
   \<and> action_calls (calls (snd (fetchAndUpdateUsage (\<lambda>v. None)
        (\<lambda>r. Response 200 (JsonBody (JObj [(''five_hour'', JObj [])])))
        (installed\<lparr>storage_orgId := Some (JStr ''org-1'')\<rparr>)))) =
       [SetIcon (IconImageData [(16, generateIcon (\<lambda>v. None) (JNum 0) 16),
          (32, generateIcon (\<lambda>v. None) (JNum 0) 32), (48, generateIcon (\<lambda>v. None) (JNum 0) 48)]),
        SetBadgeText [ToStr (JNum 0), Lit ''%''],
        SetBadgeTextColor ''#D97706'',
        SetBadgeBackgroundColor [0, 0, 0, 0],
        SetTitle [Lit (''Claude Usage Monitor'' @ newline), ToStr (JNum 0),
                  Lit (''% used'' @ newline @ ''Resets at ''), Lit ''Unknown'']]
   \<and> action_badgeText (snd (fetchAndUpdateUsage (\<lambda>v. None)
        (\<lambda>r. Response 200 (JsonBody (JObj [(''five_hour'', JObj [])])))
        (installed\<lparr>storage_orgId := Some (JStr ''org-1'')\<rparr>))) = [ToStr (JNum 0), Lit ''%'']
   \<and> action_icon (snd (fetchAndUpdateUsage (\<lambda>v. None)
        (\<lambda>r. Response 200 (JsonBody (JObj [(''five_hour'', JObj [])])))
        (installed\<lparr>storage_orgId := Some (JStr ''org-1'')\<rparr>))) \<noteq>
       Some (IconPath ''error-icon.png'')
   \<and> action_badgeText (snd (fetchAndUpdateUsage_circ (\<lambda>v. None)
        (\<lambda>r. Response 200 (JsonBody (JObj [(''five_hour'', JObj [])])))
        (installed\<lparr>storage_orgId := Some (JStr ''org-1'')\<rparr>))) = [ToStr (JNum 0), Lit ''%'']"
  by (simp add: getOrganizationId_def getOrganizationId_try_def storage_get_def
      fetchAndUpdateUsage_def fetchAndUpdateUsage_try_def fetchAndUpdateUsage_circ_def
      fetchAndUpdateUsage_circ_try_def fetch_def ok_def updateBadge_def updateBadge_circ_def
      js_or_def resetTimeStr_def Let_def setIcon_def setBadgeText_def setBadgeTextColor_def
      setBadgeBackgroundColor_def setTitle_def installed_def)

text \<open>
  For comparison, the cycle in which nothing fails: the identifier is resolved, the
  usage request is answered with a success status and a document that has a \<open>five_hour\<close>
  entry. Then the normal update runs, and the error renderer does not.
\<close>

lemma successful_cycle_updates_badge:
  assumes "getOrganizationId net w = (Inr orgId, w1)" and "truthy orgId"
    and "net (Usage orgId) = Response status (JsonBody data)" and "ok status"
    and "truthy (opt_prop data ''five_hour'')"
  shows "fetchAndUpdateUsage P net w =
           updateBadge P data (w1\<lparr>calls := calls w1 @ [Fetch (Usage orgId)]\<rparr>)"
    and "action_badgeText (snd (fetchAndUpdateUsage P net w)) =
           [ToStr (js_or (opt_prop (opt_prop data ''five_hour'') ''utilization'') (JNum 0)), Lit ''%'']"
    and "action_badgeTextColor (snd (fetchAndUpdateUsage P net w)) = Some ''#D97706''"
proof -
  have present: "data \<noteq> JNull" "data \<noteq> JUndefined"
    using assms(5) by auto
  obtain w2 where ran:
    "updateBadge P data (w1\<lparr>calls := calls w1 @ [Fetch (Usage orgId)]\<rparr>) = (Inr (), w2)"
    using assms(5) by (simp add: updateBadge_def get_prop_not_null [OF present] Let_def)
  show first: "fetchAndUpdateUsage P net w =
           updateBadge P data (w1\<lparr>calls := calls w1 @ [Fetch (Usage orgId)]\<rparr>)"
    using assms(1-4)
    by (simp add: fetchAndUpdateUsage_def fetchAndUpdateUsage_try_def fetch_def ran)
  show "action_badgeText (snd (fetchAndUpdateUsage P net w)) =
           [ToStr (js_or (opt_prop (opt_prop data ''five_hour'') ''utilization'') (JNum 0)), Lit ''%'']"
    and "action_badgeTextColor (snd (fetchAndUpdateUsage P net w)) = Some ''#D97706''"
    using assms(5)
    by (simp_all add: first updateBadge_def get_prop_not_null [OF present] Let_def setIcon_def
        setBadgeText_def setBadgeTextColor_def setBadgeBackgroundColor_def setTitle_def)
qed

end
